(* ===== verification/Prelude.thy ===== *)
theory Prelude
  imports Main "HOL-Library.Word" "HOL-Library.Char_ord" "HOL-Library.List_Lexorder"
begin

text \<open>
  Shared vocabulary of the development: the type names of the Qt and C++ values the
  device lister handles, the collections of facts the component theories feed their
  proofs with, and generic lemmas on strings (character lists), partial maps and
  64-bit words that several components use.
\<close>

section \<open>Types of the source\<close>

text \<open>
  A \<open>QString\<close> is modelled as a character list: the identifiers, property names and
  model strings the lister handles are ASCII, where a UTF-16 code unit and a byte agree.
  A \<open>quint64\<close> is a 64-bit unsigned machine word.
\<close>

type_synonym qstring = string
type_synonym quint64 = "64 word"

text \<open>A property of every entry of a partial map.\<close>

definition all_entries :: "('k \<rightharpoonup> 'v) \<Rightarrow> ('k \<Rightarrow> 'v \<Rightarrow> bool) \<Rightarrow> bool" where
  "all_entries m P \<longleftrightarrow> (\<forall>k v. m k = Some v \<longrightarrow> P k v)"

section \<open>Fact collections\<close>

named_theorems qt_simps \<open>evaluation rules of the modelled Qt library operations\<close>
named_theorems lister_simps \<open>unfolding rules of the iLister operations\<close>
named_theorems inv_intros \<open>preservation rules of the registry invariants\<close>

section \<open>Strings\<close>

lemma take_append_prefix [simp]: "take (length p) (p @ s) = p"
  by simp

lemma append_prefix_inj [simp]: "(p @ a = p @ b) = (a = b)"
  by simp

lemma length_drop_right: "n \<le> length s \<Longrightarrow> length (drop (length s - n) s) = n"
  by simp

section \<open>Partial maps\<close>

text \<open>
  The registry is a partial map. The lemmas below are the shapes in which its
  invariants are used: a property of every entry survives an update with an entry
  that has it, and any removal.
\<close>

lemma all_entries_empty [simp, inv_intros]: "all_entries Map.empty P"
  by (simp add: all_entries_def)

lemma all_entries_upd [inv_intros]:
  "all_entries m P \<Longrightarrow> P k v \<Longrightarrow> all_entries (m(k \<mapsto> v)) P"
  by (simp add: all_entries_def)

lemma all_entries_del [inv_intros]:
  "all_entries m P \<Longrightarrow> all_entries (m(k := None)) P"
  by (simp add: all_entries_def)

lemma all_entries_D: "all_entries m P \<Longrightarrow> m k = Some v \<Longrightarrow> P k v"
  by (simp add: all_entries_def)

lemma all_entries_upd_iff [simp]:
  "all_entries (m(k \<mapsto> v)) P \<longleftrightarrow> P k v \<and> all_entries (m(k := None)) P"
  by (auto simp: all_entries_def)

lemma dom_upd_Some: "dom (m(k \<mapsto> v)) = insert k (dom m)"
  by simp

lemma dom_upd_None: "dom (m(k := None)) = dom m - {k}"
  by auto

section \<open>Lists\<close>

lemma list_all_update_intro [inv_intros]: "list_all P xs \<Longrightarrow> P x \<Longrightarrow> list_all P (xs[i := x])"
  by (auto simp: list_all_iff dest: subsetD [OF set_update_subset_insert])

lemma list_all_nth_D: "list_all P xs \<Longrightarrow> i < length xs \<Longrightarrow> P (xs ! i)"
  by (simp add: list_all_length)

section \<open>Words\<close>

lemma unat_quint64_bound: "unat (w :: quint64) < 2 ^ 64"
  using unsigned_less [of w] by simp

lemma of_nat_quint64_inverse: "n < 2 ^ 64 \<Longrightarrow> unat (of_nat n :: quint64) = n"
  by (simp add: unat_of_nat)

end
