(* ===== verification/QtCore.thy ===== *)
theory QtCore
  imports Prelude
begin

text \<open>
  The parts of QtCore that the lister calls, modelled from Qt's documented behaviour
  (the library is not part of the repository): \<open>QString::startsWith\<close>,
  \<open>QString::right\<close>, \<open>QString::isEmpty\<close>, and the \<open>QVariant\<close> values the
  device connection returns with their conversions \<open>toString\<close>, \<open>toULongLong\<close> and
  \<open>toBool\<close>. A conversion that Qt cannot perform yields the type's default value
  (empty string, 0, false), which is how partial metadata turns into blank fields.
\<close>

section \<open>QString operations\<close>

definition qstring_starts_with :: "qstring \<Rightarrow> qstring \<Rightarrow> bool" where
  "qstring_starts_with s p \<longleftrightarrow> take (length p) s = p"

text \<open>\<open>QString::right(n)\<close>: the \<open>n\<close> rightmost characters, the whole string when
  \<open>n\<close> is at least its size.\<close>

definition qstring_right :: "qstring \<Rightarrow> nat \<Rightarrow> qstring" where
  "qstring_right s n = (if length s \<le> n then s else drop (length s - n) s)"

text \<open>\<open>QPlainTextEdit::setPlainText\<close> followed by \<open>toPlainText\<close>: the document breaks the
  text into paragraphs at \<open>\r\n\<close>, \<open>\r\<close> and \<open>\n\<close>, and the plain text joins
  them with \<open>\n\<close>; a non-breaking space (U+00A0) comes back as a space.\<close>

definition qplain_char :: "char \<Rightarrow> char" where
  "qplain_char c =
     (if c = CHR 0x0D then CHR 0x0A else if of_char c = (160::nat) then CHR '' '' else c)"

fun qplain_text :: "qstring \<Rightarrow> qstring" where
  "qplain_text [] = []"
| "qplain_text [c] = [qplain_char c]"
| "qplain_text (c # d # s) =
     (if c = CHR 0x0D \<and> d = CHR 0x0A then CHR 0x0A # qplain_text s else qplain_char c # qplain_text (d # s))"

section \<open>Decimal numbers\<close>

text \<open>
  \<open>QString::number\<close> prints an unsigned number in decimal, most significant digit
  first; \<open>QString::toULongLong\<close> reads one back and yields 0 when the string is not a
  decimal number or the value does not fit into 64 bits.
\<close>

definition digit_char :: "nat \<Rightarrow> char" where
  "digit_char d = ''0123456789'' ! d"

definition is_digit :: "char \<Rightarrow> bool" where
  "is_digit c \<longleftrightarrow> (48::nat) \<le> of_char c \<and> of_char c < (58::nat)"

definition digit_value :: "char \<Rightarrow> nat" where
  "digit_value c = of_char c - 48"

fun dec_string :: "nat \<Rightarrow> qstring" where
  "dec_string n = (if n < 10 then [digit_char n] else dec_string (n div 10) @ [digit_char (n mod 10)])"

declare dec_string.simps [simp del]

definition dec_value :: "qstring \<Rightarrow> nat" where
  "dec_value s = foldl (\<lambda>acc c. 10 * acc + digit_value c) 0 s"

text \<open>Both conversions ignore leading and trailing whitespace (\<open>QChar::isSpace\<close> on
  the ASCII range: space, tab, line feed, vertical tab, form feed, carriage return).\<close>

definition qchar_is_space :: "char \<Rightarrow> bool" where
  "qchar_is_space c \<longleftrightarrow> c = CHR '' '' \<or> (9::nat) \<le> of_char c \<and> of_char c \<le> (13::nat)"

definition qstring_trimmed :: "qstring \<Rightarrow> qstring" where
  "qstring_trimmed s = rev (dropWhile qchar_is_space (rev (dropWhile qchar_is_space s)))"

text \<open>\<open>QString::toULongLong\<close>: an optional \<open>+\<close> and decimal digits, whose value fits
  into 64 bits; 0 otherwise.\<close>

definition qstring_to_ulonglong :: "qstring \<Rightarrow> quint64" where
  "qstring_to_ulonglong s =
     (let t = qstring_trimmed s; ds = (if t \<noteq> [] \<and> hd t = CHR ''+'' then tl t else t) in
      if ds \<noteq> [] \<and> list_all is_digit ds \<and> dec_value ds < 2 ^ 64 then of_nat (dec_value ds) else 0)"

definition qstring_number :: "quint64 \<Rightarrow> qstring" where
  "qstring_number w = dec_string (unat w)"

text \<open>\<open>QString::toInt\<close>: an optional sign and decimal digits, within the 32-bit
  range; 0 otherwise. \<open>QString::number(int)\<close> prints a minus sign for negative values.\<close>

definition dec_int :: "bool \<Rightarrow> qstring \<Rightarrow> int" where
  "dec_int neg ds =
     (if ds \<noteq> [] \<and> list_all is_digit ds
         \<and> (if neg then dec_value ds \<le> 2 ^ 31 else dec_value ds < 2 ^ 31)
      then (if neg then - int (dec_value ds) else int (dec_value ds)) else 0)"

fun qstring_to_int_digits :: "qstring \<Rightarrow> int" where
  "qstring_to_int_digits (c # ds) =
     (if c = CHR ''-'' then dec_int True ds else if c = CHR ''+'' then dec_int False ds
      else dec_int False (c # ds))"
| "qstring_to_int_digits [] = 0"

definition qstring_to_int :: "qstring \<Rightarrow> int" where
  "qstring_to_int s = qstring_to_int_digits (qstring_trimmed s)"

definition qstring_number_int :: "int \<Rightarrow> qstring" where
  "qstring_number_int n = (if n < 0 then CHR ''-'' # dec_string (nat (- n)) else dec_string (nat n))"

section \<open>QVariant\<close>

text \<open>The variant types the device connection produces: invalid (no value), a string,
  an unsigned 64-bit integer, a boolean.\<close>

datatype qvariant = QInvalid | QVString qstring | QVULongLong quint64 | QVBool bool

definition ascii_lower :: "char \<Rightarrow> char" where
  "ascii_lower c = (if CHR ''A'' \<le> c \<and> c \<le> CHR ''Z'' then char_of (of_char c + (32::nat)) else c)"

fun qvariant_to_string :: "qvariant \<Rightarrow> qstring" where
  "qvariant_to_string QInvalid = []"
| "qvariant_to_string (QVString s) = s"
| "qvariant_to_string (QVULongLong w) = qstring_number w"
| "qvariant_to_string (QVBool b) = (if b then ''true'' else ''false'')"

fun qvariant_to_ulonglong :: "qvariant \<Rightarrow> quint64" where
  "qvariant_to_ulonglong QInvalid = 0"
| "qvariant_to_ulonglong (QVString s) = qstring_to_ulonglong s"
| "qvariant_to_ulonglong (QVULongLong w) = w"
| "qvariant_to_ulonglong (QVBool b) = (if b then 1 else 0)"

fun qvariant_to_bool :: "qvariant \<Rightarrow> bool" where
  "qvariant_to_bool QInvalid = False"
| "qvariant_to_bool (QVString s) = (s \<noteq> [] \<and> s \<noteq> ''0'' \<and> map ascii_lower s \<noteq> ''false'')"
| "qvariant_to_bool (QVULongLong w) = (w \<noteq> 0)"
| "qvariant_to_bool (QVBool b) = b"

section \<open>Facts about the modelled operations\<close>

lemma qstring_starts_with_append [simp, qt_simps]: "qstring_starts_with (p @ s) p"
  by (simp add: qstring_starts_with_def)

lemma qstring_starts_with_length:
  "qstring_starts_with s p \<Longrightarrow> length p \<le> length s"
  unfolding qstring_starts_with_def by (metis length_take min.absorb_iff2 min.cobounded2)

lemma qstring_starts_with_Nil [simp]: "qstring_starts_with [] p \<longleftrightarrow> p = []"
  by (auto simp add: qstring_starts_with_def)

lemma length_qstring_right: "length (qstring_right s n) = min n (length s)"
  by (simp add: qstring_right_def)

lemma decimal_digit_cases: "d < 10 \<Longrightarrow> d \<in> {0, 1, 2, 3, 4, 5, 6, 7, 8, 9 :: nat}"
  by auto

lemma digit_char_is_digit: "d < 10 \<Longrightarrow> is_digit (digit_char d)"
  using decimal_digit_cases [of d] by (auto simp: digit_char_def is_digit_def)

lemma digit_value_digit_char [simp]: "d < 10 \<Longrightarrow> digit_value (digit_char d) = d"
  using decimal_digit_cases [of d] by (auto simp: digit_char_def digit_value_def)

lemma dec_value_snoc [simp]: "dec_value (s @ [c]) = 10 * dec_value s + digit_value c"
  by (simp add: dec_value_def)

lemma dec_string_digits: "list_all is_digit (dec_string n)"
proof (induction n rule: dec_string.induct)
  case (1 n)
  then show ?case
    by (subst dec_string.simps) (simp add: digit_char_is_digit)
qed

lemma dec_string_nonempty [simp]: "dec_string n \<noteq> []"
  by (subst dec_string.simps) simp

lemma dec_value_dec_string [simp]: "dec_value (dec_string n) = n"
proof (induction n rule: dec_string.induct)
  case (1 n)
  show ?case
  proof (cases "n < 10")
    case True
    then show ?thesis by (subst dec_string.simps) (simp add: dec_value_def)
  next
    case False
    with "1.IH" show ?thesis by (subst dec_string.simps) simp
  qed
qed

lemma qstring_to_int_Nil [simp, qt_simps]: "qstring_to_int [] = 0"
  by (simp add: qstring_to_int_def qstring_trimmed_def)

lemmas qvariant_defaults [qt_simps] =
  qvariant_to_string.simps(1) qvariant_to_ulonglong.simps(1) qvariant_to_bool.simps(1)

end
