(* ===== verification/DeviceInfo.thy ===== *)
theory DeviceInfo
  imports QtCore
begin

text \<open>
  The device snapshot \<open>iLister::DeviceInfo\<close> and the metadata fetch
  \<open>iLister::ReadDeviceInfo\<close> (src/src/device/ilister.cpp). The fetch talks to the
  device through \<open>iMobileDeviceConnection\<close>, which is not part of the repository: it is
  modelled as an interface, a partial map from a device's uuid to its connection (\<open>None\<close>
  when the connection cannot be established) and, for a connection, a function from a
  property name and a property domain to the \<open>QVariant\<close> the lockdown service returns.
\<close>

section \<open>The device record\<close>

record device_info =
  valid :: bool
  uuid :: qstring
  product_type :: qstring
  free_bytes :: quint64
  total_bytes :: quint64
  name :: qstring
  colour :: qstring
  imei :: qstring
  hardware :: qstring
  password_protected :: bool
  os_version :: qstring
  timezone :: qstring
  wifi_mac :: qstring
  bt_mac :: qstring

text \<open>The default-constructed \<open>DeviceInfo\<close>: not valid, empty strings, zero counters,
  \<open>password_protected\<close> false.\<close>

definition default_device_info :: device_info where
  "default_device_info =
     \<lparr>valid = False, uuid = [], product_type = [], free_bytes = 0, total_bytes = 0,
      name = [], colour = [], imei = [], hardware = [], password_protected = False,
      os_version = [], timezone = [], wifi_mac = [], bt_mac = []\<rparr>"

section \<open>The device connection interface\<close>

text \<open>A connection answers \<open>GetProperty(name, domain)\<close>; the domain is the empty
  string when the code passes none. The hardware layer gives, per uuid, the connection
  \<open>iMobileDeviceConnection(uuid)\<close> opens, or \<open>None\<close> when \<open>is_valid()\<close> is false.\<close>

type_synonym connection = "qstring \<Rightarrow> qstring \<Rightarrow> qvariant"
type_synonym hardware_layer = "qstring \<Rightarrow> connection option"

definition conn_is_valid :: "connection option \<Rightarrow> bool" where
  "conn_is_valid conn \<longleftrightarrow> conn \<noteq> None"

text \<open>\<open>GetProperty\<close> on a connection that failed to open has no lockdown client and
  returns an invalid \<open>QVariant\<close>.\<close>

definition get_property :: "connection option \<Rightarrow> qstring \<Rightarrow> qstring \<Rightarrow> qvariant" where
  "get_property conn prop domain = (case conn of None \<Rightarrow> QInvalid | Some c \<Rightarrow> c prop domain)"

abbreviation disk_usage :: qstring where
  "disk_usage \<equiv> ''com.apple.disk_usage''"

section \<open>ReadDeviceInfo\<close>

text \<open>The fixed battery of property queries, in the order of the code; each result is
  converted on its own, so a missing property leaves only its field at the default.\<close>

definition read_device_info :: "hardware_layer \<Rightarrow> qstring \<Rightarrow> device_info" where
  "read_device_info hw u =
     (let ret = default_device_info; conn = hw u in
      if \<not> conn_is_valid conn then ret
      else ret\<lparr>valid := conn_is_valid conn, uuid := u,
        product_type := qvariant_to_string (get_property conn ''ProductType'' []),
        free_bytes := qvariant_to_ulonglong (get_property conn ''AmountDataAvailable'' disk_usage),
        total_bytes := qvariant_to_ulonglong (get_property conn ''TotalDataCapacity'' disk_usage),
        name := qvariant_to_string (get_property conn ''DeviceName'' []),
        colour := qvariant_to_string (get_property conn ''DeviceColor'' []),
        imei := qvariant_to_string (get_property conn ''InternationalMobileEquipmentIdentity'' []),
        hardware := qvariant_to_string (get_property conn ''HardwareModel'' []),
        password_protected := qvariant_to_bool (get_property conn ''PasswordProtected'' []),
        os_version := qvariant_to_string (get_property conn ''ProductVersion'' []),
        timezone := qvariant_to_string (get_property conn ''TimeZone'' []),
        wifi_mac := qvariant_to_string (get_property conn ''WiFiAddress'' []),
        bt_mac := qvariant_to_string (get_property conn ''BluetoothAddress'' [])\<rparr>)"

section \<open>Properties of the fetch\<close>

lemma read_device_info_valid [simp]: "valid (read_device_info hw u) \<longleftrightarrow> hw u \<noteq> None"
  by (simp add: read_device_info_def default_device_info_def conn_is_valid_def Let_def)

lemma read_device_info_Some:
  "hw u = Some c \<Longrightarrow> read_device_info hw u =
     default_device_info\<lparr>valid := True, uuid := u,
        product_type := qvariant_to_string (c ''ProductType'' []),
        free_bytes := qvariant_to_ulonglong (c ''AmountDataAvailable'' disk_usage),
        total_bytes := qvariant_to_ulonglong (c ''TotalDataCapacity'' disk_usage),
        name := qvariant_to_string (c ''DeviceName'' []),
        colour := qvariant_to_string (c ''DeviceColor'' []),
        imei := qvariant_to_string (c ''InternationalMobileEquipmentIdentity'' []),
        hardware := qvariant_to_string (c ''HardwareModel'' []),
        password_protected := qvariant_to_bool (c ''PasswordProtected'' []),
        os_version := qvariant_to_string (c ''ProductVersion'' []),
        timezone := qvariant_to_string (c ''TimeZone'' []),
        wifi_mac := qvariant_to_string (c ''WiFiAddress'' []),
        bt_mac := qvariant_to_string (c ''BluetoothAddress'' [])\<rparr>"
  by (simp add: read_device_info_def conn_is_valid_def get_property_def)

lemma read_device_info_uuid: "hw u \<noteq> None \<Longrightarrow> uuid (read_device_info hw u) = u"
  by (auto simp: read_device_info_Some)

lemma read_device_info_uuid_valid: "valid (read_device_info hw u) \<Longrightarrow> uuid (read_device_info hw u) = u"
  by (simp add: read_device_info_uuid)

text \<open>C21. When the connection cannot be established, the fetch returns the
  default-constructed record: not valid, every field at its default.\<close>

theorem read_device_info_unreachable:
  "hw u = None \<Longrightarrow> read_device_info hw u = default_device_info"
  by (simp add: read_device_info_def conn_is_valid_def)

theorem read_device_info_unreachable_witness:
  "read_device_info (\<lambda>_. None) ''EF01'' = default_device_info \<and> \<not> valid default_device_info"
  using read_device_info_unreachable [of "\<lambda>_. None" "''EF01''"]
  by (simp add: default_device_info_def)

text \<open>C22. Partial metadata is not an error: a device whose connection opens but answers
  no property query yields a valid record carrying its uuid, with every metadata field
  at its default.\<close>

theorem read_device_info_no_metadata:
  "hw u = Some (\<lambda>_ _. QInvalid) \<Longrightarrow> read_device_info hw u = default_device_info\<lparr>valid := True, uuid := u\<rparr>"
  by (simp add: read_device_info_Some default_device_info_def)

theorem read_device_info_no_metadata_witness:
  "read_device_info (\<lambda>_. Some (\<lambda>_ _. QInvalid)) ''EF01'' = default_device_info\<lparr>valid := True, uuid := ''EF01''\<rparr>"
  by (rule read_device_info_no_metadata) simp

end
