(* ===== verification/ILister.thy ===== *)
theory ILister
  imports DeviceInfo
begin

text \<open>
  The device lister \<open>iLister\<close> of src/src/device/ilister.cpp, run one callback at a
  time. Its state is the map \<open>devices_\<close> from device id to \<open>DeviceInfo\<close>, the signals
  it has emitted so far (\<open>DeviceAdded\<close>, \<open>DeviceRemoved\<close>, \<open>DeviceChanged\<close>, in
  order) and whether \<open>Init\<close> has subscribed it to the hot-plug events. The mutex
  \<open>mutex_\<close> makes every locked section atomic; here each callback is one state
  transformer, and theory \<open>Concurrency\<close> splits the callbacks into their atomic
  sections and interleaves them.
\<close>

section \<open>State, signals and events\<close>

datatype lister_signal = DeviceAdded qstring | DeviceRemoved qstring | DeviceChanged qstring

record lister =
  devices :: "qstring \<rightharpoonup> device_info"
  emitted :: "lister_signal list"
  subscribed :: bool

definition new_lister :: lister where
  "new_lister = \<lparr>devices = Map.empty, emitted = [], subscribed = False\<rparr>"

text \<open>libimobiledevice's \<open>idevice_event_t\<close> and its event kinds.\<close>

datatype idevice_event_type = IDEVICE_DEVICE_ADD | IDEVICE_DEVICE_REMOVE | IDEVICE_DEVICE_PAIRED

record idevice_event =
  event :: idevice_event_type
  udid :: qstring

section \<open>Identifiers and locked reads\<close>

definition unique_id :: "qstring \<Rightarrow> qstring" where
  "unique_id u = ''ithing/'' @ u"

text \<open>\<open>LockAndGetDeviceInfo(id, field)\<close> (ilister.h): under the lock, the field of the
  entry for \<open>id\<close>, or the default value \<open>T()\<close> of the field's type when there is none.\<close>

definition lock_and_get_device_info :: "'a \<Rightarrow> (device_info \<Rightarrow> 'a) \<Rightarrow> lister \<Rightarrow> qstring \<Rightarrow> 'a" where
  "lock_and_get_device_info dflt field s i = (case devices s i of None \<Rightarrow> dflt | Some info \<Rightarrow> field info)"

definition make_friendly_name :: "lister \<Rightarrow> qstring \<Rightarrow> qstring" where
  "make_friendly_name s i =
     (let nm = lock_and_get_device_info [] name s i in
      if nm \<noteq> [] then nm
      else let model_id = lock_and_get_device_info [] product_type s i in
        if qstring_starts_with model_id ''iPhone'' then
          (let version = qstring_right model_id 3; major = version ! 0; minor = version ! 2 in
           if major = CHR ''1'' \<and> minor = CHR ''1'' then ''iPhone''
           else if major = CHR ''1'' \<and> minor = CHR ''2'' then ''iPhone 3G''
           else if major = CHR ''2'' \<and> minor = CHR ''1'' then ''iPhone 3GS''
           else if major = CHR ''3'' \<and> minor = CHR ''1'' then ''iPhone 4''
           else model_id)
        else if qstring_starts_with model_id ''iPod'' then ''iPod Touch''
        else if qstring_starts_with model_id ''iPad'' then ''iPad''
        else model_id)"

section \<open>The hot-plug handlers\<close>

text \<open>The denylist of \<open>DeviceAddedCallback\<close>: iPhone 4 and iPad, unsupported by
  libgpod.\<close>

definition unsupported_model :: "qstring \<Rightarrow> bool" where
  "unsupported_model pt \<longleftrightarrow> pt = ''iPhone 3,1'' \<or> qstring_starts_with pt ''iPad''"

definition device_added_callback :: "hardware_layer \<Rightarrow> qstring \<Rightarrow> lister \<Rightarrow> lister" where
  "device_added_callback hw u s =
     (let info = read_device_info hw u in
      if \<not> valid info then s
      else let i = unique_id u; nm = make_friendly_name s i in
        if unsupported_model (product_type info) then s
        else s\<lparr>devices := (devices s)(i \<mapsto> info), emitted := emitted s @ [DeviceAdded i]\<rparr>)"

definition device_removed_callback :: "qstring \<Rightarrow> lister \<Rightarrow> lister" where
  "device_removed_callback u s =
     (let i = unique_id u in
      if i \<notin> dom (devices s) then s
      else s\<lparr>devices := (devices s)(i := None), emitted := emitted s @ [DeviceRemoved i]\<rparr>)"

definition event_callback :: "hardware_layer \<Rightarrow> idevice_event \<Rightarrow> lister \<Rightarrow> lister" where
  "event_callback hw ev s =
     (case event ev of
        IDEVICE_DEVICE_ADD \<Rightarrow> device_added_callback hw (udid ev) s
      | IDEVICE_DEVICE_REMOVE \<Rightarrow> device_removed_callback (udid ev) s
      | _ \<Rightarrow> s)"

text \<open>\<open>Init\<close> registers \<open>EventCallback\<close> with the hardware layer and reports success.\<close>

definition lister_init :: "lister \<Rightarrow> lister \<times> bool" where
  "lister_init s = (s\<lparr>subscribed := True\<rparr>, True)"

section \<open>Accessors\<close>

definition device_unique_ids :: "lister \<Rightarrow> qstring list" where
  "device_unique_ids s = sorted_list_of_set (dom (devices s))"

definition device_icons :: "qstring \<Rightarrow> qvariant list" where
  "device_icons i = [QVString ''ipodtouchicon'']"

definition device_manufacturer :: "qstring \<Rightarrow> qstring" where
  "device_manufacturer i = ''Apple''"

definition device_model :: "lister \<Rightarrow> qstring \<Rightarrow> qstring" where
  "device_model s i = lock_and_get_device_info [] product_type s i"

definition device_capacity :: "lister \<Rightarrow> qstring \<Rightarrow> quint64" where
  "device_capacity s i = lock_and_get_device_info 0 total_bytes s i"

definition device_free_space :: "lister \<Rightarrow> qstring \<Rightarrow> quint64" where
  "device_free_space s i = lock_and_get_device_info 0 free_bytes s i"

text \<open>\<open>DeviceHardwareInfo\<close> builds a \<open>QVariantMap\<close>; \<open>tr()\<close> is taken untranslated.\<close>

definition device_hardware_info :: "lister \<Rightarrow> qstring \<Rightarrow> qstring \<rightharpoonup> qvariant" where
  "device_hardware_info s i =
     [''Color'' \<mapsto> QVString (lock_and_get_device_info [] colour s i),
      ''IMEI'' \<mapsto> QVString (lock_and_get_device_info [] imei s i),
      ''Password Protected'' \<mapsto> QVBool (lock_and_get_device_info False password_protected s i),
      ''Timezone'' \<mapsto> QVString (lock_and_get_device_info [] timezone s i),
      ''WiFi MAC Address'' \<mapsto> QVString (lock_and_get_device_info [] wifi_mac s i),
      ''Bluetooth MAC Address'' \<mapsto> QVString (lock_and_get_device_info [] bt_mac s i)]"

text \<open>\<open>MakeDeviceUrls\<close>: the \<open>afc://\<close> endpoint of the stored uuid, none when the id is
  unknown. A \<open>QUrl\<close> is represented by its string.\<close>

definition make_device_urls :: "lister \<Rightarrow> qstring \<Rightarrow> qstring list" where
  "make_device_urls s i =
     (let u = lock_and_get_device_info [] uuid s i in
      if u = [] then [] else [''afc://'' @ u @ ''/''])"

section \<open>Free-space refresh\<close>

text \<open>\<open>UpdateDeviceFreeSpace\<close>: under the lock, open a connection to the stored uuid,
  query the free byte count and write it into the entry; then emit \<open>DeviceChanged\<close>.
  The connection's validity is not checked.\<close>

definition update_device_free_space :: "hardware_layer \<Rightarrow> qstring \<Rightarrow> lister \<Rightarrow> lister" where
  "update_device_free_space hw i s =
     (case devices s i of
        None \<Rightarrow> s
      | Some info \<Rightarrow>
          let conn = hw (uuid info);
              info' = info\<lparr>free_bytes := qvariant_to_ulonglong (get_property conn ''AmountDataAvailable'' disk_usage)\<rparr>
          in s\<lparr>devices := (devices s)(i \<mapsto> info'), emitted := emitted s @ [DeviceChanged i]\<rparr>)"

section \<open>Operations and runs\<close>

text \<open>Every way the lister's state changes: a hot-plug event delivered to
  \<open>EventCallback\<close>, a free-space refresh requested by a consumer, and \<open>Init\<close>. Each
  operation runs against the hardware layer as it is at that moment.\<close>

datatype lister_op = Event idevice_event | UpdateFreeSpace qstring | Init

fun lister_step :: "hardware_layer \<Rightarrow> lister_op \<Rightarrow> lister \<Rightarrow> lister" where
  "lister_step hw (Event ev) s = event_callback hw ev s"
| "lister_step hw (UpdateFreeSpace i) s = update_device_free_space hw i s"
| "lister_step hw Init s = fst (lister_init s)"

fun lister_run :: "(hardware_layer \<times> lister_op) list \<Rightarrow> lister \<Rightarrow> lister" where
  "lister_run [] s = s"
| "lister_run ((hw, op) # ops) s = lister_run ops (lister_step hw op s)"

section \<open>The listeners' view\<close>

text \<open>A listener that tracks the signal stream keeps a set of present ids: it adds an id
  on \<open>DeviceAdded\<close>, drops it on \<open>DeviceRemoved\<close> and ignores \<open>DeviceChanged\<close>.\<close>

fun listener_view :: "qstring set \<Rightarrow> lister_signal list \<Rightarrow> qstring set" where
  "listener_view A [] = A"
| "listener_view A (DeviceAdded i # ss) = listener_view (insert i A) ss"
| "listener_view A (DeviceRemoved i # ss) = listener_view (A - {i}) ss"
| "listener_view A (DeviceChanged i # ss) = listener_view A ss"

section \<open>The registry invariant\<close>

text \<open>Every entry of \<open>devices_\<close> is a valid fetch result, is filed under the id
  derived from its own uuid, and is not of a denylisted model; the map is finite.\<close>

definition entry_ok :: "qstring \<Rightarrow> device_info \<Rightarrow> bool" where
  "entry_ok i info \<longleftrightarrow> valid info \<and> i = unique_id (uuid info) \<and> \<not> unsupported_model (product_type info)"

definition lister_inv :: "lister \<Rightarrow> bool" where
  "lister_inv s \<longleftrightarrow> all_entries (devices s) entry_ok \<and> finite (dom (devices s))"

section \<open>Behaviour of the handlers\<close>

lemmas lister_unfold [lister_simps] = device_added_callback_def device_removed_callback_def
  update_device_free_space_def event_callback_def lister_init_def lock_and_get_device_info_def

lemma device_added_callback_reject:
  "\<not> valid (read_device_info hw u) \<or> unsupported_model (product_type (read_device_info hw u))
   \<Longrightarrow> device_added_callback hw u s = s"
  by (auto simp: device_added_callback_def Let_def)

lemma device_added_callback_accept:
  "valid (read_device_info hw u) \<Longrightarrow> \<not> unsupported_model (product_type (read_device_info hw u))
   \<Longrightarrow> device_added_callback hw u s =
        s\<lparr>devices := (devices s)(unique_id u \<mapsto> read_device_info hw u),
          emitted := emitted s @ [DeviceAdded (unique_id u)]\<rparr>"
  by (simp add: device_added_callback_def Let_def)

lemma device_removed_callback_absent:
  "unique_id u \<notin> dom (devices s) \<Longrightarrow> device_removed_callback u s = s"
  by (simp add: device_removed_callback_def)

lemma device_removed_callback_present:
  "unique_id u \<in> dom (devices s) \<Longrightarrow> device_removed_callback u s =
     s\<lparr>devices := (devices s)(unique_id u := None), emitted := emitted s @ [DeviceRemoved (unique_id u)]\<rparr>"
  by (simp add: device_removed_callback_def Let_def)

lemma update_device_free_space_absent:
  "devices s i = None \<Longrightarrow> update_device_free_space hw i s = s"
  by (simp add: update_device_free_space_def)

lemma update_device_free_space_present:
  "devices s i = Some info \<Longrightarrow> update_device_free_space hw i s =
     s\<lparr>devices := (devices s)(i \<mapsto> info\<lparr>free_bytes :=
          qvariant_to_ulonglong (get_property (hw (uuid info)) ''AmountDataAvailable'' disk_usage)\<rparr>),
       emitted := emitted s @ [DeviceChanged i]\<rparr>"
  by (simp add: update_device_free_space_def)

lemma unique_id_inj [simp]: "unique_id u = unique_id v \<longleftrightarrow> u = v"
  by (simp add: unique_id_def)

lemma lister_step_subscribed: "subscribed s \<Longrightarrow> subscribed (lister_step hw op s)"
  by (cases op) (auto simp: lister_unfold Let_def split: idevice_event_type.splits option.splits)

section \<open>Preservation of the registry invariant\<close>

lemma lister_inv_new [inv_intros]: "lister_inv new_lister"
  by (simp add: lister_inv_def new_lister_def)

lemma entry_ok_read_device_info:
  "valid (read_device_info hw u) \<Longrightarrow> \<not> unsupported_model (product_type (read_device_info hw u))
   \<Longrightarrow> entry_ok (unique_id u) (read_device_info hw u)"
  by (simp add: entry_ok_def read_device_info_uuid_valid)

lemma device_added_callback_inv [inv_intros]:
  "lister_inv s \<Longrightarrow> lister_inv (device_added_callback hw u s)"
  by (cases "valid (read_device_info hw u) \<and> \<not> unsupported_model (product_type (read_device_info hw u))")
     (auto simp: device_added_callback_accept device_added_callback_reject lister_inv_def
        entry_ok_read_device_info all_entries_del)

lemma device_removed_callback_inv [inv_intros]:
  "lister_inv s \<Longrightarrow> lister_inv (device_removed_callback u s)"
  by (simp add: device_removed_callback_def lister_inv_def Let_def all_entries_del)

lemma update_device_free_space_inv [inv_intros]:
  "lister_inv s \<Longrightarrow> lister_inv (update_device_free_space hw i s)"
  by (cases "devices s i")
     (auto simp: update_device_free_space_present update_device_free_space_absent lister_inv_def
        entry_ok_def all_entries_del dest: all_entries_D)

lemma event_callback_inv [inv_intros]: "lister_inv s \<Longrightarrow> lister_inv (event_callback hw ev s)"
  by (simp add: event_callback_def inv_intros split: idevice_event_type.split)

lemma lister_inv_subscribed [simp]: "lister_inv (s\<lparr>subscribed := b\<rparr>) = lister_inv s"
  by (simp add: lister_inv_def)

lemma lister_step_inv [inv_intros]: "lister_inv s \<Longrightarrow> lister_inv (lister_step hw op s)"
  by (cases op) (simp_all add: inv_intros lister_init_def)

lemma lister_run_inv: "lister_inv s \<Longrightarrow> lister_inv (lister_run ops s)"
  by (induction ops arbitrary: s) (auto simp: lister_step_inv)

lemma lister_inv_unique_uuid:
  "lister_inv s \<Longrightarrow> devices s i = Some a \<Longrightarrow> devices s j = Some b \<Longrightarrow> uuid a = uuid b \<Longrightarrow> i = j"
proof -
  assume inv: "lister_inv s" and a: "devices s i = Some a" and b: "devices s j = Some b"
    and eq: "uuid a = uuid b"
  from inv have all: "all_entries (devices s) entry_ok" by (simp add: lister_inv_def)
  from all_entries_D [OF all a] have "i = unique_id (uuid a)" by (simp add: entry_ok_def)
  moreover from all_entries_D [OF all b] have "j = unique_id (uuid b)" by (simp add: entry_ok_def)
  ultimately show "i = j" using eq by simp
qed

lemma lock_and_get_device_info_None [simp]:
  "devices s i = None \<Longrightarrow> lock_and_get_device_info d f s i = d"
  by (simp add: lock_and_get_device_info_def)

lemma lock_and_get_device_info_Some [simp]:
  "devices s i = Some info \<Longrightarrow> lock_and_get_device_info d f s i = f info"
  by (simp add: lock_and_get_device_info_def)

lemma lister_run_inv_new: "lister_inv (lister_run ops new_lister)"
  by (rule lister_run_inv [OF lister_inv_new])

lemma read_device_info_product_type:
  "hw u = Some c \<Longrightarrow> product_type (read_device_info hw u) = qvariant_to_string (c ''ProductType'' [])"
  by (simp add: read_device_info_Some)

lemma read_device_info_name:
  "hw u = Some c \<Longrightarrow> name (read_device_info hw u) = qvariant_to_string (c ''DeviceName'' [])"
  by (simp add: read_device_info_Some)

lemma device_added_callback_entry:
  "hw u = Some c \<Longrightarrow> \<not> unsupported_model (qvariant_to_string (c ''ProductType'' []))
   \<Longrightarrow> devices (device_added_callback hw u s) (unique_id u) = Some (read_device_info hw u)"
  by (simp add: device_added_callback_accept read_device_info_product_type)

lemmas friendly_name_simps = make_friendly_name_def qstring_starts_with_def qstring_right_def Let_def

lemma listener_view_append: "listener_view A (xs @ ys) = listener_view (listener_view A xs) ys"
  by (induction A xs rule: listener_view.induct) simp_all

lemma lister_step_view:
  "listener_view {} (emitted s) = dom (devices s)
   \<Longrightarrow> listener_view {} (emitted (lister_step hw op s)) = dom (devices (lister_step hw op s))"
  by (cases op)
     (auto simp: lister_unfold Let_def listener_view_append split: idevice_event_type.splits option.splits)

lemma lister_run_view:
  "listener_view {} (emitted s) = dom (devices s)
   \<Longrightarrow> listener_view {} (emitted (lister_run ops s)) = dom (devices (lister_run ops s))"
  by (induction ops arbitrary: s) (auto simp: lister_step_view)

section \<open>Properties of the lister\<close>

text \<open>C1. Whatever sequence of hot-plug events, free-space refreshes and \<open>Init\<close> calls the
  lister goes through from construction, every entry of \<open>devices_\<close> is a valid fetch
  result filed under the id derived from its own uuid, of a model not on the denylist,
  and the map is finite.\<close>

theorem lister_run_registry_invariant: "lister_inv (lister_run ops new_lister)"
  by (rule lister_run_inv [OF lister_inv_new])

theorem lister_run_registry_invariant_witness:
  "devices (lister_run [(\<lambda>u. if u = ''EF01'' then Some (\<lambda>_ _. QInvalid) else None,
                         Event \<lparr>event = IDEVICE_DEVICE_ADD, udid = ''EF01''\<rparr>)] new_lister) ''ithing/EF01''
     = Some (default_device_info\<lparr>valid := True, uuid := ''EF01''\<rparr>)
   \<and> entry_ok ''ithing/EF01'' (default_device_info\<lparr>valid := True, uuid := ''EF01''\<rparr>)"
proof -
  let ?hw = "\<lambda>u. if u = ''EF01'' then Some (\<lambda>_ _. QInvalid) else None"
  let ?ops = "[(?hw, Event \<lparr>event = IDEVICE_DEVICE_ADD, udid = ''EF01''\<rparr>)]"
  have run: "devices (lister_run ?ops new_lister) ''ithing/EF01''
     = Some (default_device_info\<lparr>valid := True, uuid := ''EF01''\<rparr>)"
    by (simp add: event_callback_def device_added_callback_def read_device_info_Some
          default_device_info_def unique_id_def unsupported_model_def qstring_starts_with_def
          new_lister_def Let_def)
  have "lister_inv (lister_run ?ops new_lister)" by (rule lister_run_registry_invariant)
  with run show ?thesis by (auto simp: lister_inv_def dest: all_entries_D)
qed

text \<open>C5. A successful, supported fetch is stored whole under the id derived from the uuid,
  replacing any earlier record; \<open>DeviceAdded\<close> is emitted after it, and no other
  entry changes.\<close>

theorem device_added_callback_stores_fetch:
  assumes "valid (read_device_info hw u)" and "\<not> unsupported_model (product_type (read_device_info hw u))"
  shows "devices (device_added_callback hw u s) (unique_id u) = Some (read_device_info hw u)
    \<and> emitted (device_added_callback hw u s) = emitted s @ [DeviceAdded (unique_id u)]
    \<and> (\<forall>j. j \<noteq> unique_id u \<longrightarrow> devices (device_added_callback hw u s) j = devices s j)"
  using assms by (simp add: device_added_callback_accept)

theorem device_added_callback_stores_fetch_witness:
  "devices (device_added_callback (\<lambda>u. if u = ''EF01'' then Some (\<lambda>_ _. QInvalid) else None) ''EF01'' new_lister)
      ''ithing/EF01'' = Some (default_device_info\<lparr>valid := True, uuid := ''EF01''\<rparr>)
   \<and> emitted (device_added_callback (\<lambda>u. if u = ''EF01'' then Some (\<lambda>_ _. QInvalid) else None) ''EF01'' new_lister)
      = [DeviceAdded ''ithing/EF01'']"
  using device_added_callback_stores_fetch
    [of "\<lambda>u. if u = ''EF01'' then Some (\<lambda>_ _. QInvalid) else None" "''EF01''" new_lister]
  by (simp add: read_device_info_Some default_device_info_def unsupported_model_def
        qstring_starts_with_def unique_id_def new_lister_def)

text \<open>C6. An unreachable device or a denylisted model (\<open>"iPhone 3,1"\<close>, any
  \<open>"iPad"\<close>) leaves the lister untouched: no entry is created or replaced and no
  signal is emitted.\<close>

theorem device_added_callback_rejects:
  "\<not> valid (read_device_info hw u) \<or> unsupported_model (product_type (read_device_info hw u))
   \<Longrightarrow> device_added_callback hw u s = s"
  by (rule device_added_callback_reject)

theorem device_added_callback_rejects_witness:
  "device_added_callback (\<lambda>u. if u = ''ABCD-1234''
       then Some (\<lambda>p _. if p = ''ProductType'' then QVString ''iPhone 3,1'' else QInvalid) else None)
     ''ABCD-1234'' new_lister = new_lister"
  by (rule device_added_callback_rejects)
     (simp add: read_device_info_Some default_device_info_def unsupported_model_def)

text \<open>C7. After \<open>DeviceRemovedCallback\<close> the device's id is no longer in the map, and
  every other entry is unchanged.\<close>

theorem device_removed_callback_removes:
  "unique_id u \<notin> dom (devices (device_removed_callback u s))
   \<and> (\<forall>j. j \<noteq> unique_id u \<longrightarrow> devices (device_removed_callback u s) j = devices s j)"
  by (cases "unique_id u \<in> dom (devices s)")
     (simp_all add: device_removed_callback_present device_removed_callback_absent)

theorem device_removed_callback_removes_witness:
  "devices (device_removed_callback ''EF01''
      (new_lister\<lparr>devices := [''ithing/EF01'' \<mapsto> default_device_info, ''ithing/X'' \<mapsto> default_device_info]\<rparr>))
    = [''ithing/X'' \<mapsto> default_device_info]"
proof -
  let ?s = "new_lister\<lparr>devices := [''ithing/EF01'' \<mapsto> default_device_info, ''ithing/X'' \<mapsto> default_device_info]\<rparr>"
  have r: "unique_id ''EF01'' \<notin> dom (devices (device_removed_callback ''EF01'' ?s))"
    and f: "\<forall>j. j \<noteq> unique_id ''EF01'' \<longrightarrow> devices (device_removed_callback ''EF01'' ?s) j = devices ?s j"
    using device_removed_callback_removes [of "''EF01''" ?s] by blast+
  show ?thesis
  proof
    fix j
    show "devices (device_removed_callback ''EF01'' ?s) j = [''ithing/X'' \<mapsto> default_device_info] j"
      using r f [rule_format, of j] by (cases "j = ''ithing/EF01''") (auto simp: unique_id_def)
  qed
qed

text \<open>C8. A removal event for a device that is not registered is a no-op: the map is
  unchanged and no signal is emitted.\<close>

theorem device_removed_callback_unknown:
  "unique_id u \<notin> dom (devices s) \<Longrightarrow> device_removed_callback u s = s"
  by (rule device_removed_callback_absent)

theorem device_removed_callback_unknown_witness:
  "device_removed_callback ''EF01'' new_lister = new_lister"
  by (rule device_removed_callback_unknown) (simp add: new_lister_def)

text \<open>C9. \<open>UpdateDeviceFreeSpace\<close> on a registered id replaces only the free byte
  count, with the value the connection to the stored uuid reports now, emits
  \<open>DeviceChanged\<close>, and leaves every other entry unchanged.\<close>

theorem update_device_free_space_only_free_bytes:
  assumes "devices s i = Some info"
  shows "devices (update_device_free_space hw i s) i = Some (info\<lparr>free_bytes :=
           qvariant_to_ulonglong (get_property (hw (uuid info)) ''AmountDataAvailable'' disk_usage)\<rparr>)
    \<and> emitted (update_device_free_space hw i s) = emitted s @ [DeviceChanged i]
    \<and> (\<forall>j. j \<noteq> i \<longrightarrow> devices (update_device_free_space hw i s) j = devices s j)"
  using assms by (simp add: update_device_free_space_present)

theorem update_device_free_space_only_free_bytes_witness:
  "device_free_space (update_device_free_space
      (\<lambda>u. Some (\<lambda>p _. if p = ''AmountDataAvailable'' then QVULongLong 500000000 else QInvalid))
      ''ithing/EF01'' (new_lister\<lparr>devices := [''ithing/EF01'' \<mapsto> default_device_info\<lparr>valid := True, uuid := ''EF01''\<rparr>]\<rparr>))
      ''ithing/EF01'' = 500000000"
proof -
  let ?hw = "\<lambda>u::qstring. Some (\<lambda>p (_::qstring). if p = ''AmountDataAvailable'' then QVULongLong 500000000 else QInvalid)"
  let ?info = "default_device_info\<lparr>valid := True, uuid := ''EF01''\<rparr>"
  let ?s = "new_lister\<lparr>devices := [''ithing/EF01'' \<mapsto> ?info]\<rparr>"
  have "devices (update_device_free_space ?hw ''ithing/EF01'' ?s) ''ithing/EF01'' =
      Some (?info\<lparr>free_bytes := qvariant_to_ulonglong (get_property (?hw (uuid ?info)) ''AmountDataAvailable'' disk_usage)\<rparr>)"
    using update_device_free_space_only_free_bytes [of ?s "''ithing/EF01''" ?info ?hw] by simp
  then show ?thesis by (simp add: device_free_space_def get_property_def)
qed

text \<open>C10. \<open>UpdateDeviceFreeSpace\<close> on an id that is not registered is a no-op: no
  entry is created and no signal is emitted.\<close>

theorem update_device_free_space_unknown:
  "devices s i = None \<Longrightarrow> update_device_free_space hw i s = s"
  by (rule update_device_free_space_absent)

theorem update_device_free_space_unknown_witness:
  "update_device_free_space (\<lambda>_. None) ''ithing/EF01'' new_lister = new_lister"
  by (rule update_device_free_space_unknown) (simp add: new_lister_def)

text \<open>C25. Reads of an id that is not registered return the default of each field: empty
  model, zero capacity and free space, no URL and an empty friendly name. In
  particular the friendly name \<open>DeviceAddedCallback\<close> computes before it inserts a
  new device is always empty.\<close>

theorem reads_of_unknown_id:
  "devices s i = None \<Longrightarrow>
     device_model s i = [] \<and> device_capacity s i = 0 \<and> device_free_space s i = 0
     \<and> make_device_urls s i = [] \<and> make_friendly_name s i = []"
  by (simp add: device_model_def device_capacity_def device_free_space_def make_device_urls_def
        make_friendly_name_def qstring_starts_with_def)

theorem reads_of_unknown_id_witness:
  "device_model new_lister ''ithing/EF01'' = [] \<and> make_friendly_name new_lister ''ithing/EF01'' = []"
  using reads_of_unknown_id [of new_lister "''ithing/EF01''"] by (simp add: new_lister_def)

text \<open>C24. In every state the lister reaches, two entries never hold the same uuid.\<close>

theorem lister_run_uuid_unique:
  "devices (lister_run ops new_lister) i = Some a \<Longrightarrow> devices (lister_run ops new_lister) j = Some b
   \<Longrightarrow> uuid a = uuid b \<Longrightarrow> i = j"
  by (rule lister_inv_unique_uuid [OF lister_run_inv_new])

theorem lister_run_uuid_unique_witness:
  "devices (lister_run [(\<lambda>u. Some (\<lambda>_ _. QInvalid), Event \<lparr>event = IDEVICE_DEVICE_ADD, udid = ''A''\<rparr>)] new_lister)
      ''ithing/A'' = Some (default_device_info\<lparr>valid := True, uuid := ''A''\<rparr>)
   \<and> ''ithing/A'' = (''ithing/A'' :: qstring)"
proof -
  let ?ops = "[(\<lambda>u::qstring. Some (\<lambda>(_::qstring) (_::qstring). QInvalid), Event \<lparr>event = IDEVICE_DEVICE_ADD, udid = ''A''\<rparr>)]"
  have d: "devices (lister_run ?ops new_lister) ''ithing/A'' = Some (default_device_info\<lparr>valid := True, uuid := ''A''\<rparr>)"
    by (simp add: event_callback_def device_added_callback_def read_device_info_Some default_device_info_def
          unique_id_def unsupported_model_def qstring_starts_with_def new_lister_def Let_def)
  from lister_run_uuid_unique [OF d d refl] d show ?thesis by simp
qed

text \<open>C27. An iPod that reports no device name and product type \<open>"iPod5,1"\<close> is
  registered under its derived id, \<open>DeviceAdded\<close> is emitted for it, and its friendly
  name resolves to \<open>"iPod Touch"\<close>.\<close>

theorem ipod_arrival_friendly_name:
  assumes "hw u = Some c" and "c ''ProductType'' [] = QVString ''iPod5,1''" and "c ''DeviceName'' [] = QVString []"
  shows "make_friendly_name (device_added_callback hw u s) (unique_id u) = ''iPod Touch''
    \<and> emitted (device_added_callback hw u s) = emitted s @ [DeviceAdded (unique_id u)]"
proof -
  have ok: "\<not> unsupported_model (qvariant_to_string (c ''ProductType'' []))"
    using assms(2) by (simp add: unsupported_model_def qstring_starts_with_def)
  have e: "devices (device_added_callback hw u s) (unique_id u) = Some (read_device_info hw u)"
    by (rule device_added_callback_entry [of hw u c s, OF assms(1) ok])
  have "make_friendly_name (device_added_callback hw u s) (unique_id u) = ''iPod Touch''"
    using e assms by (simp add: friendly_name_simps read_device_info_Some)
  moreover have "emitted (device_added_callback hw u s) = emitted s @ [DeviceAdded (unique_id u)]"
    using assms ok by (simp add: device_added_callback_accept read_device_info_product_type)
  ultimately show ?thesis by simp
qed

theorem ipod_arrival_friendly_name_witness:
  "make_friendly_name (device_added_callback (\<lambda>_. Some (\<lambda>p _. if p = ''ProductType'' then QVString ''iPod5,1''
        else if p = ''DeviceName'' then QVString [] else QInvalid)) ''EF01-5678'' new_lister) ''ithing/EF01-5678''
     = ''iPod Touch''"
  using ipod_arrival_friendly_name [of "\<lambda>_. Some (\<lambda>p _. if p = ''ProductType'' then QVString ''iPod5,1''
        else if p = ''DeviceName'' then QVString [] else QInvalid)" "''EF01-5678''" _ new_lister]
  by (simp add: unique_id_def)

text \<open>C28. \<open>MakeFriendlyName\<close> looks only at the last three characters of an iPhone
  model: a nameless device of product type \<open>"iPhone11,2"\<close> is named
  \<open>"iPhone 3G"\<close>.\<close>

theorem make_friendly_name_last_three_chars:
  "devices s i = Some info \<Longrightarrow> name info = [] \<Longrightarrow> product_type info = ''iPhone11,2''
   \<Longrightarrow> make_friendly_name s i = ''iPhone 3G''"
  by (simp add: friendly_name_simps)

theorem make_friendly_name_last_three_chars_witness:
  "make_friendly_name (new_lister\<lparr>devices := [''ithing/A'' \<mapsto> default_device_info\<lparr>product_type := ''iPhone11,2''\<rparr>]\<rparr>)
     ''ithing/A'' = ''iPhone 3G''"
  by (rule make_friendly_name_last_three_chars [where info = "default_device_info\<lparr>product_type := ''iPhone11,2''\<rparr>"])
     (simp_all add: default_device_info_def)

text \<open>C29. The denylist compares the product type with \<open>"iPhone 3,1"\<close> (with a space),
  while \<open>MakeFriendlyName\<close> recognises the iPhone 4 by its last three characters: an
  iPhone 4 reporting \<open>"iPhone3,1"\<close> is registered and named \<open>"iPhone 4"\<close>.\<close>

theorem iphone4_not_denylisted:
  assumes "hw u = Some c" and "c ''ProductType'' [] = QVString ''iPhone3,1''" and "c ''DeviceName'' [] = QInvalid"
  shows "make_friendly_name (device_added_callback hw u s) (unique_id u) = ''iPhone 4''"
proof -
  have ok: "\<not> unsupported_model (qvariant_to_string (c ''ProductType'' []))"
    using assms(2) by (simp add: unsupported_model_def qstring_starts_with_def)
  have "devices (device_added_callback hw u s) (unique_id u) = Some (read_device_info hw u)"
    by (rule device_added_callback_entry [of hw u c s, OF assms(1) ok])
  then show ?thesis using assms by (simp add: friendly_name_simps read_device_info_Some)
qed

theorem iphone4_not_denylisted_witness:
  "make_friendly_name (device_added_callback (\<lambda>_. Some (\<lambda>p _. if p = ''ProductType'' then QVString ''iPhone3,1''
        else QInvalid)) ''F00D'' new_lister) ''ithing/F00D'' = ''iPhone 4''"
  using iphone4_not_denylisted [of "\<lambda>_. Some (\<lambda>p _. if p = ''ProductType'' then QVString ''iPhone3,1''
        else QInvalid)" "''F00D''" _ new_lister]
  by (simp add: unique_id_def)

text \<open>C18. Run one callback at a time, the signals tell the whole story: a listener that
  starts empty and replays every \<open>DeviceAdded\<close> and \<open>DeviceRemoved\<close> holds exactly
  the ids of \<open>devices_\<close>.\<close>

theorem lister_run_listener_view:
  "listener_view {} (emitted (lister_run ops new_lister)) = dom (devices (lister_run ops new_lister))"
  by (rule lister_run_view) (simp add: new_lister_def)


text \<open>C11. A refresh does not check that the device can still be reached: when the
  connection to a registered device's uuid cannot be opened, \<open>UpdateDeviceFreeSpace\<close>
  overwrites its free space with 0 and still emits \<open>DeviceChanged\<close>.\<close>

theorem update_device_free_space_unreachable:
  assumes "devices s i = Some info" and "hw (uuid info) = None"
  shows "update_device_free_space hw i s =
     s\<lparr>devices := (devices s)(i \<mapsto> info\<lparr>free_bytes := 0\<rparr>), emitted := emitted s @ [DeviceChanged i]\<rparr>"
  using assms by (simp add: update_device_free_space_present get_property_def)

theorem update_device_free_space_unreachable_witness:
  "update_device_free_space (\<lambda>_. None) ''ithing/U''
     \<lparr>devices = [''ithing/U'' \<mapsto> default_device_info\<lparr>valid := True, uuid := ''U'', free_bytes := 7\<rparr>],
      emitted = [DeviceAdded ''ithing/U''], subscribed = True\<rparr>
   = \<lparr>devices = [''ithing/U'' \<mapsto> default_device_info\<lparr>valid := True, uuid := ''U'', free_bytes := 0\<rparr>],
      emitted = [DeviceAdded ''ithing/U'', DeviceChanged ''ithing/U''], subscribed = True\<rparr>"
proof -
  let ?info = "default_device_info\<lparr>valid := True, uuid := ''U'', free_bytes := 7\<rparr>"
  let ?s = "\<lparr>devices = [''ithing/U'' \<mapsto> ?info], emitted = [DeviceAdded ''ithing/U''], subscribed = True\<rparr>"
  have "update_device_free_space (\<lambda>_. None) ''ithing/U'' ?s =
      ?s\<lparr>devices := (devices ?s)(''ithing/U'' \<mapsto> ?info\<lparr>free_bytes := 0\<rparr>),
         emitted := emitted ?s @ [DeviceChanged ''ithing/U'']\<rparr>"
    by (rule update_device_free_space_unreachable) simp_all
  moreover have "?info\<lparr>free_bytes := 0\<rparr> = default_device_info\<lparr>valid := True, uuid := ''U'', free_bytes := 0\<rparr>"
    by simp
  ultimately show ?thesis by simp
qed

end
