(* ===== verification/Concurrency.thy ===== *)
theory Concurrency
  imports ILister
begin

text \<open>
  The lister as the hardware layer really drives it: libimobiledevice calls
  \<open>EventCallback\<close> on threads of its own, consumers call \<open>UpdateDeviceFreeSpace\<close> on
  theirs, and the only synchronisation is \<open>mutex_\<close>. Each callback invocation is a
  thread with a program counter (\<open>thread\<close>). \<open>thread_step\<close> performs the thread's next
  atomic section: the metadata fetch outside the lock, the locked test-and-update of
  \<open>devices_\<close>, or the signal emission after the lock is released. The two locked reads
  of \<open>MakeFriendlyName\<close> between the fetch and the insert change nothing and are
  folded into the insert's section. The system steps (\<open>cstep\<close>) either run one
  thread's next section or let the hardware layer act. A device can be plugged in,
  which makes its connection available and starts an add callback. It can be unplugged,
  which withdraws the connection and starts a remove callback. Its storage can change.
  A consumer can request a refresh.
\<close>

section \<open>Threads and their atomic sections\<close>

type_synonym registry = "qstring \<rightharpoonup> device_info"

datatype thread =
    AddFetch qstring
  | AddInsert qstring device_info
  | AddEmit qstring
  | RemoveLocked qstring
  | RemoveEmit qstring
  | UpdateLocked qstring
  | UpdateEmit qstring
  | Done

text \<open>\<open>DeviceAddedCallback\<close>: \<open>ReadDeviceInfo\<close> without the lock; then, after the
  validity and denylist checks, the locked insert; then \<open>emit DeviceAdded\<close>.\<close>

fun added_callback_step :: "hardware_layer \<Rightarrow> thread \<Rightarrow> registry \<Rightarrow> lister_signal list
    \<Rightarrow> thread \<times> registry \<times> lister_signal list" where
  "added_callback_step hw (AddFetch u) m ss = (AddInsert u (read_device_info hw u), m, ss)"
| "added_callback_step hw (AddInsert u info) m ss =
     (if \<not> valid info then (Done, m, ss)
      else if unsupported_model (product_type info) then (Done, m, ss)
      else (AddEmit (unique_id u), m(unique_id u \<mapsto> info), ss))"
| "added_callback_step hw (AddEmit i) m ss = (Done, m, ss @ [DeviceAdded i])"
| "added_callback_step hw t m ss = (t, m, ss)"

text \<open>\<open>DeviceRemovedCallback\<close>: the locked test-and-remove; then \<open>emit DeviceRemoved\<close>.\<close>

fun removed_callback_step :: "thread \<Rightarrow> registry \<Rightarrow> lister_signal list
    \<Rightarrow> thread \<times> registry \<times> lister_signal list" where
  "removed_callback_step (RemoveLocked u) m ss =
     (let i = unique_id u in if i \<notin> dom m then (Done, m, ss) else (RemoveEmit i, m(i := None), ss))"
| "removed_callback_step (RemoveEmit i) m ss = (Done, m, ss @ [DeviceRemoved i])"
| "removed_callback_step t m ss = (t, m, ss)"

text \<open>\<open>UpdateDeviceFreeSpace\<close>: one locked section that also opens the connection and
  queries the device; then \<open>emit DeviceChanged\<close>.\<close>

fun update_free_space_step :: "hardware_layer \<Rightarrow> thread \<Rightarrow> registry \<Rightarrow> lister_signal list
    \<Rightarrow> thread \<times> registry \<times> lister_signal list" where
  "update_free_space_step hw (UpdateLocked i) m ss =
     (case m i of
        None \<Rightarrow> (Done, m, ss)
      | Some info \<Rightarrow> (UpdateEmit i, m(i \<mapsto> info\<lparr>free_bytes :=
          qvariant_to_ulonglong (get_property (hw (uuid info)) ''AmountDataAvailable'' disk_usage)\<rparr>), ss))"
| "update_free_space_step hw (UpdateEmit i) m ss = (Done, m, ss @ [DeviceChanged i])"
| "update_free_space_step hw t m ss = (t, m, ss)"

definition thread_step :: "hardware_layer \<Rightarrow> thread \<Rightarrow> registry \<Rightarrow> lister_signal list
    \<Rightarrow> thread \<times> registry \<times> lister_signal list" where
  "thread_step hw t m ss =
     (case t of
        AddFetch _ \<Rightarrow> added_callback_step hw t m ss
      | AddInsert _ _ \<Rightarrow> added_callback_step hw t m ss
      | AddEmit _ \<Rightarrow> added_callback_step hw t m ss
      | RemoveLocked _ \<Rightarrow> removed_callback_step t m ss
      | RemoveEmit _ \<Rightarrow> removed_callback_step t m ss
      | UpdateLocked _ \<Rightarrow> update_free_space_step hw t m ss
      | UpdateEmit _ \<Rightarrow> update_free_space_step hw t m ss
      | Done \<Rightarrow> (Done, m, ss))"

text \<open>A thread run alone for \<open>n\<close> sections.\<close>

fun thread_solo :: "nat \<Rightarrow> hardware_layer \<Rightarrow> thread \<Rightarrow> registry \<Rightarrow> lister_signal list
    \<Rightarrow> thread \<times> registry \<times> lister_signal list" where
  "thread_solo 0 hw t m ss = (t, m, ss)"
| "thread_solo (Suc n) hw t m ss = (case thread_step hw t m ss of (t', m', ss') \<Rightarrow> thread_solo n hw t' m' ss')"

section \<open>The concurrent system\<close>

record csys =
  reg :: registry
  sigs :: "lister_signal list"
  layer :: hardware_layer
  threads :: "thread list"

definition csys_init :: "hardware_layer \<Rightarrow> csys" where
  "csys_init h = \<lparr>reg = Map.empty, sigs = [], layer = h, threads = []\<rparr>"

inductive cstep :: "csys \<Rightarrow> csys \<Rightarrow> bool" where
  run: "t < length (threads s) \<Longrightarrow> thread_step (layer s) (threads s ! t) (reg s) (sigs s) = (t', m', ss')
        \<Longrightarrow> cstep s (s\<lparr>reg := m', sigs := ss', threads := (threads s)[t := t']\<rparr>)"
| plug: "layer s u = None \<Longrightarrow> cstep s (s\<lparr>layer := (layer s)(u \<mapsto> c), threads := threads s @ [AddFetch u]\<rparr>)"
| unplug: "layer s u \<noteq> None \<Longrightarrow> cstep s (s\<lparr>layer := (layer s)(u := None), threads := threads s @ [RemoveLocked u]\<rparr>)"
| storage: "layer s u \<noteq> None \<Longrightarrow> cstep s (s\<lparr>layer := (layer s)(u \<mapsto> c)\<rparr>)"
| refresh: "cstep s (s\<lparr>threads := threads s @ [UpdateLocked i]\<rparr>)"

inductive creach :: "csys \<Rightarrow> bool" where
  init: "creach (csys_init (\<lambda>_. None))"
| step: "creach s \<Longrightarrow> cstep s s' \<Longrightarrow> creach s'"

definition quiescent :: "csys \<Rightarrow> bool" where
  "quiescent s \<longleftrightarrow> list_all (\<lambda>t. t = Done) (threads s)"

section \<open>Schedules\<close>

text \<open>The same steps as an executable function: an action names the thread to run or
  the hardware-layer event, and a schedule is a list of actions; \<open>None\<close> when an
  action is not enabled.\<close>

datatype sched_action = Run nat | Plug qstring connection | Unplug qstring
  | Storage qstring connection | Refresh qstring

fun csys_action :: "csys \<Rightarrow> sched_action \<Rightarrow> csys option" where
  "csys_action s (Run t) =
     (if t < length (threads s)
      then (case thread_step (layer s) (threads s ! t) (reg s) (sigs s) of (t', m', ss') \<Rightarrow>
              Some (s\<lparr>reg := m', sigs := ss', threads := (threads s)[t := t']\<rparr>))
      else None)"
| "csys_action s (Plug u c) =
     (if layer s u = None then Some (s\<lparr>layer := (layer s)(u \<mapsto> c), threads := threads s @ [AddFetch u]\<rparr>)
      else None)"
| "csys_action s (Unplug u) =
     (if layer s u \<noteq> None then Some (s\<lparr>layer := (layer s)(u := None), threads := threads s @ [RemoveLocked u]\<rparr>)
      else None)"
| "csys_action s (Storage u c) =
     (if layer s u \<noteq> None then Some (s\<lparr>layer := (layer s)(u \<mapsto> c)\<rparr>) else None)"
| "csys_action s (Refresh i) = Some (s\<lparr>threads := threads s @ [UpdateLocked i]\<rparr>)"

fun csys_schedule :: "csys \<Rightarrow> sched_action list \<Rightarrow> csys option" where
  "csys_schedule s [] = Some s"
| "csys_schedule s (a # as) = (case csys_action s a of None \<Rightarrow> None | Some s' \<Rightarrow> csys_schedule s' as)"

section \<open>Invariant of the concurrent system\<close>

text \<open>A fetched record waiting for the insert carries the uuid it was fetched for.\<close>

fun thread_ok :: "thread \<Rightarrow> bool" where
  "thread_ok (AddInsert u info) \<longleftrightarrow> (valid info \<longrightarrow> uuid info = u)"
| "thread_ok _ \<longleftrightarrow> True"

definition cinv :: "csys \<Rightarrow> bool" where
  "cinv s \<longleftrightarrow> all_entries (reg s) entry_ok \<and> finite (dom (reg s)) \<and> list_all thread_ok (threads s)"

section \<open>The atomic sections keep the invariant\<close>

lemma added_callback_step_ok:
  assumes "thread_ok t" "all_entries m entry_ok" "finite (dom m)"
    and "added_callback_step hw t m ss = (t', m', ss')"
  shows "thread_ok t' \<and> all_entries m' entry_ok \<and> finite (dom m')"
  using assms
  by (cases "(hw, t, m, ss)" rule: added_callback_step.cases)
     (auto simp: entry_ok_def read_device_info_uuid_valid all_entries_del split: if_splits)

lemma removed_callback_step_ok:
  assumes "thread_ok t" "all_entries m entry_ok" "finite (dom m)"
    and "removed_callback_step t m ss = (t', m', ss')"
  shows "thread_ok t' \<and> all_entries m' entry_ok \<and> finite (dom m')"
  using assms
  by (cases "(t, m, ss)" rule: removed_callback_step.cases)
     (auto simp: Let_def all_entries_del split: if_splits)

lemma entry_ok_free_bytes [simp]: "entry_ok i (info\<lparr>free_bytes := w\<rparr>) = entry_ok i info"
  by (simp add: entry_ok_def)

lemma update_free_space_step_ok:
  assumes "thread_ok t" "all_entries m entry_ok" "finite (dom m)"
    and "update_free_space_step hw t m ss = (t', m', ss')"
  shows "thread_ok t' \<and> all_entries m' entry_ok \<and> finite (dom m')"
proof (cases "\<exists>i. t = UpdateLocked i")
  case True
  then obtain i where t: "t = UpdateLocked i" by blast
  show ?thesis
  proof (cases "m i")
    case None
    with t assms show ?thesis by auto
  next
    case (Some info)
    from all_entries_D [OF assms(2) Some] have "entry_ok i info" .
    with t Some assms show ?thesis by (auto simp: all_entries_del)
  qed
next
  case False
  with assms show ?thesis by (cases t) auto
qed

lemma thread_step_ok:
  assumes ok: "thread_ok t" "all_entries m entry_ok" "finite (dom m)"
    and st: "thread_step hw t m ss = (t', m', ss')"
  shows "thread_ok t' \<and> all_entries m' entry_ok \<and> finite (dom m')"
proof -
  consider (a) "thread_step hw t m ss = added_callback_step hw t m ss"
    | (r) "thread_step hw t m ss = removed_callback_step t m ss"
    | (u) "thread_step hw t m ss = update_free_space_step hw t m ss"
    | (d) "t = Done"
    by (cases t) (simp_all add: thread_step_def)
  then show ?thesis
  proof cases
    case a
    with st have "added_callback_step hw t m ss = (t', m', ss')" by simp
    then show ?thesis by (rule added_callback_step_ok [OF ok])
  next
    case r
    with st have "removed_callback_step t m ss = (t', m', ss')" by simp
    then show ?thesis by (rule removed_callback_step_ok [OF ok])
  next
    case u
    with st have "update_free_space_step hw t m ss = (t', m', ss')" by simp
    then show ?thesis by (rule update_free_space_step_ok [OF ok])
  next
    case d
    with st ok show ?thesis by (simp add: thread_step_def)
  qed
qed

lemma cinv_init: "cinv (csys_init h)"
  by (simp add: cinv_def csys_init_def)

lemma cstep_cinv: "cstep s s' \<Longrightarrow> cinv s \<Longrightarrow> cinv s'"
proof (induction rule: cstep.induct)
  case (run t s t' m' ss')
  from run.prems have ts: "list_all thread_ok (threads s)"
    and all: "all_entries (reg s) entry_ok" "finite (dom (reg s))" by (simp_all add: cinv_def)
  from ts run.hyps(1) have "thread_ok (threads s ! t)" by (rule list_all_nth_D)
  from thread_step_ok [OF this all run.hyps(2)] ts show ?case
    by (simp add: cinv_def list_all_update_intro)
qed (simp_all add: cinv_def)

lemma creach_cinv: "creach s \<Longrightarrow> cinv s"
  by (induction rule: creach.induct) (auto simp: cinv_init cstep_cinv)

section \<open>Schedules and the step relation\<close>

lemma csys_action_cstep: "csys_action s a = Some s' \<Longrightarrow> cstep s s'"
proof (cases a)
  case (Run t)
  assume act: "csys_action s a = Some s'"
  obtain t' m' ss' where st: "thread_step (layer s) (threads s ! t) (reg s) (sigs s) = (t', m', ss')"
    by (metis prod_cases3)
  with act Run show ?thesis by (auto split: if_splits intro: cstep.run)
qed (auto split: if_splits intro: cstep.intros)

lemma cstep_csys_action: "cstep s s' \<Longrightarrow> \<exists>a. csys_action s a = Some s'"
proof (induction rule: cstep.induct)
  case (run t s t' m' ss')
  then have "csys_action s (Run t) = Some (s\<lparr>reg := m', sigs := ss', threads := (threads s)[t := t']\<rparr>)"
    by simp
  then show ?case by blast
next
  case (plug s u c)
  then have "csys_action s (Plug u c) = Some (s\<lparr>layer := (layer s)(u \<mapsto> c), threads := threads s @ [AddFetch u]\<rparr>)"
    by simp
  then show ?case by blast
next
  case (unplug s u)
  then have "csys_action s (Unplug u) = Some (s\<lparr>layer := (layer s)(u := None), threads := threads s @ [RemoveLocked u]\<rparr>)"
    by simp
  then show ?case by blast
next
  case (storage s u c)
  then have "csys_action s (Storage u c) = Some (s\<lparr>layer := (layer s)(u \<mapsto> c)\<rparr>)" by simp
  then show ?case by blast
next
  case (refresh s i)
  have "csys_action s (Refresh i) = Some (s\<lparr>threads := threads s @ [UpdateLocked i]\<rparr>)" by simp
  then show ?case by blast
qed

lemma csys_schedule_creach: "creach s \<Longrightarrow> csys_schedule s as = Some s' \<Longrightarrow> creach s'"
proof (induction as arbitrary: s)
  case Nil
  then show ?case by simp
next
  case (Cons a as)
  from Cons.prems(2) obtain s1 where a: "csys_action s a = Some s1" and r: "csys_schedule s1 as = Some s'"
    by (auto split: option.splits)
  from Cons.prems(1) csys_action_cstep [OF a] have "creach s1" by (rule creach.step)
  from Cons.IH [OF this r] show ?case .
qed

lemma thread_solo_Done [simp]: "thread_solo n hw Done m ss = (Done, m, ss)"
  by (induction n) (simp_all add: thread_step_def)

lemma thread_solo_3: "thread_solo 3 hw t m ss =
   (case thread_step hw t m ss of (t1, m1, ss1) \<Rightarrow> case thread_step hw t1 m1 ss1 of (t2, m2, ss2) \<Rightarrow>
      thread_step hw t2 m2 ss2)"
  by (simp add: eval_nat_numeral split: prod.splits)

lemma solo_added: "thread_solo 3 hw (AddFetch u) (devices l) (emitted l)
   = (Done, devices (device_added_callback hw u l), emitted (device_added_callback hw u l))"
  by (simp add: thread_solo_3 thread_step_def device_added_callback_def Let_def)

lemma solo_removed: "thread_solo 3 hw (RemoveLocked u) (devices l) (emitted l)
   = (Done, devices (device_removed_callback u l), emitted (device_removed_callback u l))"
  by (simp add: thread_solo_3 thread_step_def device_removed_callback_def Let_def)

lemma solo_update: "thread_solo 3 hw (UpdateLocked i) (devices l) (emitted l)
   = (Done, devices (update_device_free_space hw i l), emitted (update_device_free_space hw i l))"
  by (simp add: thread_solo_3 thread_step_def update_device_free_space_def split: option.splits)

lemmas schedule_simps = csys_init_def thread_step_def read_device_info_Some unsupported_model_def
  qstring_starts_with_def unique_id_def default_device_info_def quiescent_def

section \<open>Properties of the concurrent lister\<close>

text \<open>C2. Under every interleaving of callback threads and hardware-layer events, every
  entry of \<open>devices_\<close> is a valid fetch result filed under the id of its own uuid, of
  a model not on the denylist, and the map is finite.\<close>

theorem concurrent_registry_invariant:
  "creach s \<Longrightarrow> all_entries (reg s) entry_ok \<and> finite (dom (reg s))"
  by (drule creach_cinv) (simp add: cinv_def)

theorem concurrent_registry_invariant_witness:
  "reg \<lparr>reg = [''ithing/U'' \<mapsto> default_device_info\<lparr>valid := True, uuid := ''U''\<rparr>],
         sigs = [DeviceAdded ''ithing/U''], layer = (\<lambda>_. None), threads = [Done, Done]\<rparr> ''ithing/U''
     = Some (default_device_info\<lparr>valid := True, uuid := ''U''\<rparr>)
   \<and> entry_ok ''ithing/U'' (default_device_info\<lparr>valid := True, uuid := ''U''\<rparr>)"
proof -
  let ?s = "\<lparr>reg = [''ithing/U'' \<mapsto> default_device_info\<lparr>valid := True, uuid := ''U''\<rparr>],
         sigs = [DeviceAdded ''ithing/U''], layer = (\<lambda>_. None), threads = [Done, Done]\<rparr>"
  have "csys_schedule (csys_init (\<lambda>_. None))
     [Plug ''U'' (\<lambda>_ _. QInvalid), Run 0, Unplug ''U'', Run 1, Run 0, Run 0] = Some ?s"
    by (simp add: schedule_simps)
  with creach.init have "creach ?s" by (rule csys_schedule_creach)
  then have "all_entries (reg ?s) entry_ok" by (rule concurrent_registry_invariant [THEN conjunct1])
  then show ?thesis by (auto dest: all_entries_D)
qed

text \<open>C12. The race the design notes leave open is real: a device can be unplugged while
  its arrival callback is fetching. The removal callback then finds nothing to remove,
  and the arrival callback inserts afterwards. In the resulting quiescent state the
  device is gone from the hardware layer and no \<open>DeviceRemoved\<close> was ever emitted,
  yet its entry stays in \<open>devices_\<close>.\<close>

theorem removal_race_leaves_stale_entry:
  "\<exists>s. creach s \<and> quiescent s \<and> layer s u = None
     \<and> reg s (unique_id u) = Some (default_device_info\<lparr>valid := True, uuid := u\<rparr>)
     \<and> sigs s = [DeviceAdded (unique_id u)]"
proof -
  let ?s = "\<lparr>reg = [unique_id u \<mapsto> default_device_info\<lparr>valid := True, uuid := u\<rparr>],
         sigs = [DeviceAdded (unique_id u)], layer = (\<lambda>_. None), threads = [Done, Done]\<rparr>"
  have "csys_schedule (csys_init (\<lambda>_. None))
     [Plug u (\<lambda>_ _. QInvalid), Run 0, Unplug u, Run 1, Run 0, Run 0] = Some ?s"
    by (simp add: schedule_simps)
  with creach.init have "creach ?s" by (rule csys_schedule_creach)
  then show ?thesis by (intro exI [of _ ?s]) (simp add: quiescent_def)
qed

theorem removal_race_leaves_stale_entry_witness:
  "\<exists>s. creach s \<and> quiescent s \<and> layer s ''U'' = None
     \<and> reg s ''ithing/U'' = Some (default_device_info\<lparr>valid := True, uuid := ''U''\<rparr>)
     \<and> sigs s = [DeviceAdded ''ithing/U'']"
  using removal_race_leaves_stale_entry [of "''U''"] by (simp add: unique_id_def)

text \<open>C15. Signals are emitted after the lock is released, so two callbacks for the same
  device can emit in the opposite order of their registry updates. A listener that
  tracks \<open>DeviceAdded\<close> and \<open>DeviceRemoved\<close> can then end up believing a device is
  present that the registry no longer holds, even after all callbacks have finished.\<close>

theorem signal_order_diverges_from_registry:
  "\<exists>s. creach s \<and> quiescent s \<and> unique_id u \<in> listener_view {} (sigs s) \<and> unique_id u \<notin> dom (reg s)"
proof -
  let ?s = "\<lparr>reg = Map.empty, sigs = [DeviceRemoved (unique_id u), DeviceAdded (unique_id u)],
         layer = (\<lambda>_. None), threads = [Done, Done]\<rparr>"
  have "csys_schedule (csys_init (\<lambda>_. None))
     [Plug u (\<lambda>_ _. QInvalid), Run 0, Run 0, Unplug u, Run 1, Run 1, Run 0] = Some ?s"
    by (simp add: schedule_simps)
  with creach.init have "creach ?s" by (rule csys_schedule_creach)
  then show ?thesis by (intro exI [of _ ?s]) (simp add: quiescent_def)
qed

theorem signal_order_diverges_from_registry_witness:
  "\<exists>s. creach s \<and> quiescent s \<and> ''ithing/U'' \<in> listener_view {} (sigs s) \<and> ''ithing/U'' \<notin> dom (reg s)"
  using signal_order_diverges_from_registry [of "''U''"] by (simp add: unique_id_def)

end
