(* ===== verification/Registry.thy ===== *)
theory Registry
  imports ILister
begin

text \<open>
  The registry contract of the design (\<open>upsert\<close>, \<open>remove\<close>, \<open>contains\<close>, \<open>get\<close>,
  \<open>all_ids\<close>, \<open>update_free_space\<close>) stated abstractly and refined by the lister of
  theory \<open>ILister\<close>. The abstract state is the set of devices present, by raw uuid.
  A hot-plug arrival of a device whose fetch is admissible (the connection opens and
  the model is not denylisted) makes the device present. A departure makes it absent.
  Free-space refreshes, paired events and \<open>Init\<close> leave the set unchanged. The abstraction
  function reads the uuids of the stored records. The refinement lemma says that each
  operation of \<open>iLister\<close>, run one at a time, moves the abstraction exactly as the
  abstract step does. This theory also holds the read side of the contract: the ids the
  signals carry, what \<open>DeviceHardwareInfo\<close> reports after an arrival, and the endpoint
  \<open>MakeDeviceUrls\<close> builds.
\<close>

section \<open>The abstract registry\<close>

datatype presence_op = Arrive qstring | Depart qstring | Stay

fun presence_step :: "presence_op \<Rightarrow> qstring set \<Rightarrow> qstring set" where
  "presence_step (Arrive u) P = insert u P"
| "presence_step (Depart u) P = P - {u}"
| "presence_step Stay P = P"

fun presence_run :: "presence_op list \<Rightarrow> qstring set \<Rightarrow> qstring set" where
  "presence_run [] P = P"
| "presence_run (a # as) P = presence_run as (presence_step a P)"

section \<open>The abstraction\<close>

text \<open>The guard of \<open>DeviceAddedCallback\<close>: the fetch is valid and the model is not on
  the denylist.\<close>

definition admissible :: "hardware_layer \<Rightarrow> qstring \<Rightarrow> bool" where
  "admissible hw u \<longleftrightarrow> valid (read_device_info hw u) \<and> \<not> unsupported_model (product_type (read_device_info hw u))"

fun abs_op :: "hardware_layer \<Rightarrow> lister_op \<Rightarrow> presence_op" where
  "abs_op hw (Event ev) =
     (case event ev of
        IDEVICE_DEVICE_ADD \<Rightarrow> if admissible hw (udid ev) then Arrive (udid ev) else Stay
      | IDEVICE_DEVICE_REMOVE \<Rightarrow> Depart (udid ev)
      | IDEVICE_DEVICE_PAIRED \<Rightarrow> Stay)"
| "abs_op hw (UpdateFreeSpace i) = Stay"
| "abs_op hw Init = Stay"

definition present :: "lister \<Rightarrow> qstring set" where
  "present s = uuid ` ran (devices s)"

section \<open>Ids and signals\<close>

text \<open>An id of the form \<open>UniqueId(uuid)\<close>, and the id a signal carries.\<close>

definition is_device_id :: "qstring \<Rightarrow> bool" where
  "is_device_id i \<longleftrightarrow> qstring_starts_with i ''ithing/''"

fun signal_id :: "lister_signal \<Rightarrow> qstring" where
  "signal_id (DeviceAdded i) = i"
| "signal_id (DeviceRemoved i) = i"
| "signal_id (DeviceChanged i) = i"

definition signals_ok :: "lister \<Rightarrow> bool" where
  "signals_ok s \<longleftrightarrow> list_all (\<lambda>sg. is_device_id (signal_id sg)) (emitted s)"

section \<open>The abstraction under the registry invariant\<close>

lemma device_added_callback_admissible:
  "admissible hw u \<Longrightarrow> device_added_callback hw u s =
     s\<lparr>devices := (devices s)(unique_id u \<mapsto> read_device_info hw u),
       emitted := emitted s @ [DeviceAdded (unique_id u)]\<rparr>"
  "\<not> admissible hw u \<Longrightarrow> device_added_callback hw u s = s"
  by (auto simp: admissible_def device_added_callback_accept device_added_callback_reject
      simp del: read_device_info_valid)

lemma ran_uuid_ids:
  assumes "all_entries m entry_ok"
  shows "uuid ` ran m = {u. unique_id u \<in> dom m}"
proof
  show "uuid ` ran m \<subseteq> {u. unique_id u \<in> dom m}"
  proof
    fix u assume "u \<in> uuid ` ran m"
    then obtain k v where kv: "m k = Some v" and u: "u = uuid v" by (auto simp: ran_def)
    from all_entries_D [OF assms kv] have "k = unique_id (uuid v)" by (simp add: entry_ok_def)
    with kv u show "u \<in> {u. unique_id u \<in> dom m}" by auto
  qed
next
  show "{u. unique_id u \<in> dom m} \<subseteq> uuid ` ran m"
  proof
    fix u assume "u \<in> {u. unique_id u \<in> dom m}"
    then obtain v where v: "m (unique_id u) = Some v" by auto
    from all_entries_D [OF assms v] have "u = uuid v" by (simp add: entry_ok_def)
    with v show "u \<in> uuid ` ran m" by (auto simp: ran_def)
  qed
qed

lemma present_ids: "lister_inv s \<Longrightarrow> present s = {u. unique_id u \<in> dom (devices s)}"
  by (simp add: present_def lister_inv_def ran_uuid_ids)

lemma ids_insert [simp]: "{u. unique_id u \<in> insert (unique_id v) D} = insert v {u. unique_id u \<in> D}"
  by auto

lemma ids_remove [simp]: "{u. unique_id u \<in> D - {unique_id v}} = {u. unique_id u \<in> D} - {v}"
  by auto

lemma lister_step_present:
  assumes inv: "lister_inv s"
  shows "present (lister_step hw op s) = presence_step (abs_op hw op) (present s)"
proof -
  have inv': "lister_inv (lister_step hw op s)" using inv by (rule lister_step_inv)
  have "{u. unique_id u \<in> dom (devices (lister_step hw op s))}
      = presence_step (abs_op hw op) {u. unique_id u \<in> dom (devices s)}"
  proof (cases op)
    case (Event ev)
    show ?thesis
    proof (cases "event ev")
      case IDEVICE_DEVICE_ADD
      with Event show ?thesis
        by (cases "admissible hw (udid ev)")
           (auto simp: event_callback_def device_added_callback_admissible)
    next
      case IDEVICE_DEVICE_REMOVE
      with Event show ?thesis
        by (cases "unique_id (udid ev) \<in> dom (devices s)")
           (auto simp: event_callback_def device_removed_callback_present
              device_removed_callback_absent dom_upd_None)
    next
      case IDEVICE_DEVICE_PAIRED
      with Event show ?thesis by (simp add: event_callback_def)
    qed
  next
    case (UpdateFreeSpace i)
    then show ?thesis
      by (cases "devices s i")
         (auto simp: update_device_free_space_absent update_device_free_space_present)
  next
    case Init
    then show ?thesis by (simp add: lister_init_def)
  qed
  with inv inv' show ?thesis by (simp add: present_ids)
qed

lemma lister_run_present:
  "lister_inv s \<Longrightarrow> present (lister_run ops s) = presence_run (map (\<lambda>(hw, op). abs_op hw op) ops) (present s)"
  by (induction ops arbitrary: s) (auto simp: lister_step_present lister_step_inv)

lemma present_new [simp]: "present new_lister = {}"
  by (simp add: present_def new_lister_def)

section \<open>Ids handed out\<close>

lemma is_device_id_unique_id [simp]: "is_device_id (unique_id u)"
  by (simp add: is_device_id_def unique_id_def qstring_starts_with_def)

lemma lister_inv_device_id: "lister_inv s \<Longrightarrow> devices s i = Some info \<Longrightarrow> is_device_id i"
  by (auto simp: lister_inv_def entry_ok_def dest: all_entries_D)

lemma signals_ok_new [inv_intros]: "signals_ok new_lister"
  by (simp add: signals_ok_def new_lister_def)

lemma lister_step_signals_ok [inv_intros]:
  assumes inv: "lister_inv s" and ok: "signals_ok s"
  shows "signals_ok (lister_step hw op s)"
proof (cases op)
  case (Event ev)
  with ok show ?thesis
    by (cases "event ev"; cases "admissible hw (udid ev)"; cases "unique_id (udid ev) \<in> dom (devices s)")
       (simp_all add: signals_ok_def event_callback_def device_added_callback_admissible
          device_removed_callback_present device_removed_callback_absent)
next
  case (UpdateFreeSpace i)
  with inv ok show ?thesis
    by (cases "devices s i")
       (auto simp: signals_ok_def update_device_free_space_absent update_device_free_space_present
          lister_inv_device_id)
next
  case Init
  with ok show ?thesis by (simp add: signals_ok_def lister_init_def)
qed

lemma lister_run_signals_ok: "lister_inv s \<Longrightarrow> signals_ok s \<Longrightarrow> signals_ok (lister_run ops s)"
  by (induction ops arbitrary: s) (auto simp: lister_step_signals_ok lister_step_inv)

section \<open>Properties of the registry contract\<close>

text \<open>C3. Refinement of the registry contract: run one callback at a time from a fresh
  lister, the set of devices present (the uuids of the stored records) evolves exactly
  as the abstract registry does. An admissible arrival adds the device, a departure
  removes it, and refreshes, paired events and \<open>Init\<close> change nothing.\<close>

theorem lister_run_refines_presence:
  "present (lister_run ops new_lister) = presence_run (map (\<lambda>(hw, op). abs_op hw op) ops) {}"
  using lister_run_present [OF lister_inv_new] by simp

text \<open>C20. Every signal the lister emits carries a derived id \<open>"ithing/" + uuid\<close>,
  never a bare uuid, whatever operations it has gone through.\<close>

theorem emitted_signals_carry_device_ids:
  "list_all (\<lambda>sg. is_device_id (signal_id sg)) (emitted (lister_run ops new_lister))"
  using lister_run_signals_ok [OF lister_inv_new signals_ok_new, of ops] by (simp add: signals_ok_def)

text \<open>C23. After the arrival of a supported device, \<open>DeviceHardwareInfo\<close> of its id
  reports what the device's connection answered: colour, IMEI, password protection,
  time zone, WiFi and Bluetooth addresses, each under its own key and no other key.\<close>

theorem arrival_hardware_info:
  assumes "hw u = Some c" and "\<not> unsupported_model (qvariant_to_string (c ''ProductType'' []))"
  shows "device_hardware_info (device_added_callback hw u s) (unique_id u) =
     [''Color'' \<mapsto> QVString (qvariant_to_string (c ''DeviceColor'' [])),
      ''IMEI'' \<mapsto> QVString (qvariant_to_string (c ''InternationalMobileEquipmentIdentity'' [])),
      ''Password Protected'' \<mapsto> QVBool (qvariant_to_bool (c ''PasswordProtected'' [])),
      ''Timezone'' \<mapsto> QVString (qvariant_to_string (c ''TimeZone'' [])),
      ''WiFi MAC Address'' \<mapsto> QVString (qvariant_to_string (c ''WiFiAddress'' [])),
      ''Bluetooth MAC Address'' \<mapsto> QVString (qvariant_to_string (c ''BluetoothAddress'' []))]"
  using device_added_callback_entry [where hw = hw and u = u and c = c and s = s, OF assms]
  by (simp add: device_hardware_info_def read_device_info_Some [where hw = hw and u = u and c = c, OF assms(1)])

theorem arrival_hardware_info_witness:
  "device_hardware_info (device_added_callback (\<lambda>_. Some (\<lambda>p _. if p = ''TimeZone'' then QVString ''Europe/Rome'' else QInvalid)) ''U'' new_lister) ''ithing/U'' =
     [''Color'' \<mapsto> QVString [], ''IMEI'' \<mapsto> QVString [], ''Password Protected'' \<mapsto> QVBool False,
      ''Timezone'' \<mapsto> QVString ''Europe/Rome'', ''WiFi MAC Address'' \<mapsto> QVString [],
      ''Bluetooth MAC Address'' \<mapsto> QVString []]"
  using arrival_hardware_info [of "\<lambda>_. Some (\<lambda>p _. if p = ''TimeZone'' then QVString ''Europe/Rome'' else QInvalid)" "''U''"
      "\<lambda>p _. if p = ''TimeZone'' then QVString ''Europe/Rome'' else QInvalid" new_lister]
  by (simp add: unsupported_model_def qstring_starts_with_def unique_id_def)


text \<open>C26. The transfer endpoint of a registered device is built from its own uuid:
  \<open>MakeDeviceUrls(UniqueId(u))\<close> is \<open>afc://u/\<close>. A device whose uuid is empty is
  registered like any other, under \<open>"ithing/"\<close>, but gets no endpoint.\<close>

theorem make_device_urls_registered:
  assumes "lister_inv s" and "unique_id u \<in> dom (devices s)"
  shows "make_device_urls s (unique_id u) = (if u = [] then [] else [''afc://'' @ u @ ''/''])"
proof -
  from assms(2) obtain info where e: "devices s (unique_id u) = Some info" by auto
  with assms(1) have "uuid info = u" by (auto simp: lister_inv_def entry_ok_def dest: all_entries_D)
  with e show ?thesis by (simp add: make_device_urls_def)
qed

theorem make_device_urls_registered_witness:
  "make_device_urls (device_added_callback (\<lambda>_. Some (\<lambda>_ _. QInvalid)) ''EF01'' new_lister) ''ithing/EF01''
     = [''afc://EF01/'']
   \<and> make_device_urls (device_added_callback (\<lambda>_. Some (\<lambda>_ _. QInvalid)) [] new_lister) ''ithing/'' = []"
proof -
  have adm: "admissible (\<lambda>_. Some (\<lambda>_ _. QInvalid)) u" for u
    by (simp add: admissible_def read_device_info_Some unsupported_model_def qstring_starts_with_def
        default_device_info_def)
  have inv: "lister_inv (device_added_callback (\<lambda>_. Some (\<lambda>_ _. QInvalid)) u new_lister)" for u
    by (rule device_added_callback_inv [OF lister_inv_new])
  have dom: "unique_id u \<in> dom (devices (device_added_callback (\<lambda>_. Some (\<lambda>_ _. QInvalid)) u new_lister))" for u
    by (simp add: device_added_callback_admissible(1) [OF adm])
  show ?thesis
    using make_device_urls_registered [OF inv dom, of "''EF01''"] make_device_urls_registered [OF inv dom, of "[]"]
    by (simp_all add: unique_id_def)
qed

end
