(* ===== verification/Serial.thy ===== *)
theory Serial
  imports Concurrency Registry
begin

text \<open>
  The concurrent lister of theory \<open>Concurrency\<close> when its callbacks never overlap. A
  hardware event (plug, unplug, storage change, refresh request) is followed by the
  three sections of the callback it starts, before the next event happens. Such serial
  runs are related to the sequential lister of theory \<open>ILister\<close> by a refinement
  mapping: the concurrent state matches the lister whose map and signals it holds, once
  every thread has returned. Each serial block is then one \<open>lister_step\<close>, run against
  the hardware layer as it is when the callback runs. Composed with the presence
  abstraction of theory \<open>Registry\<close>, serial runs implement the abstract registry. The
  races of theories \<open>Concurrency\<close> and \<open>Races\<close> therefore need overlapping callbacks.
\<close>

section \<open>Serial runs\<close>

datatype hw_event = HPlug qstring connection | HUnplug qstring | HStorage qstring connection
  | HRefresh qstring

fun hw_action :: "hw_event \<Rightarrow> sched_action" where
  "hw_action (HPlug u c) = Plug u c"
| "hw_action (HUnplug u) = Unplug u"
| "hw_action (HStorage u c) = Storage u c"
| "hw_action (HRefresh i) = Refresh i"

fun spawns :: "hw_event \<Rightarrow> bool" where
  "spawns (HStorage u c) = False"
| "spawns e = True"

text \<open>The event's action, then three sections of the thread it started, which is the
  last one.\<close>

definition serial_block :: "csys \<Rightarrow> hw_event \<Rightarrow> sched_action list" where
  "serial_block s e =
     (let n = length (threads s) in hw_action e # (if spawns e then [Run n, Run n, Run n] else []))"

fun serial_run :: "csys \<Rightarrow> hw_event list \<Rightarrow> csys option" where
  "serial_run s [] = Some s"
| "serial_run s (e # es) =
     (case csys_schedule s (serial_block s e) of None \<Rightarrow> None | Some s' \<Rightarrow> serial_run s' es)"

section \<open>The sequential operations of a serial run\<close>

fun layer_after :: "hardware_layer \<Rightarrow> hw_event \<Rightarrow> hardware_layer" where
  "layer_after h (HPlug u c) = h(u \<mapsto> c)"
| "layer_after h (HUnplug u) = h(u := None)"
| "layer_after h (HStorage u c) = h(u \<mapsto> c)"
| "layer_after h (HRefresh i) = h"

text \<open>The callback an event starts, as an operation of the sequential lister with the
  hardware layer it runs against.\<close>

fun lister_ops_of :: "hardware_layer \<Rightarrow> hw_event \<Rightarrow> (hardware_layer \<times> lister_op) list" where
  "lister_ops_of h (HPlug u c) = [(h(u \<mapsto> c), Event \<lparr>event = IDEVICE_DEVICE_ADD, udid = u\<rparr>)]"
| "lister_ops_of h (HUnplug u) = [(h(u := None), Event \<lparr>event = IDEVICE_DEVICE_REMOVE, udid = u\<rparr>)]"
| "lister_ops_of h (HStorage u c) = []"
| "lister_ops_of h (HRefresh i) = [(h, UpdateFreeSpace i)]"

fun serial_ops :: "hardware_layer \<Rightarrow> hw_event list \<Rightarrow> (hardware_layer \<times> lister_op) list" where
  "serial_ops h [] = []"
| "serial_ops h (e # es) = lister_ops_of h e @ serial_ops (layer_after h e) es"

text \<open>The refinement mapping: every thread has returned, and the map and the signals
  are the lister's.\<close>

definition sim_rel :: "csys \<Rightarrow> lister \<Rightarrow> bool" where
  "sim_rel s l \<longleftrightarrow> quiescent s \<and> reg s = devices l \<and> sigs s = emitted l"

text \<open>Every registered device is still connected: its uuid has a connection in the
  hardware layer.\<close>

definition entries_connected :: "hardware_layer \<Rightarrow> registry \<Rightarrow> bool" where
  "entries_connected h m \<longleftrightarrow> all_entries m (\<lambda>i info. h (uuid info) \<noteq> None)"

section \<open>One serial block is one lister step\<close>

lemma schedule_run3_solo:
  assumes i: "i < length (threads s)"
    and solo: "thread_solo 3 (layer s) (threads s ! i) (reg s) (sigs s) = (t, m, ss)"
  shows "csys_schedule s [Run i, Run i, Run i] = Some (s\<lparr>reg := m, sigs := ss, threads := (threads s)[i := t]\<rparr>)"
proof -
  obtain t1 m1 ss1 where 1: "thread_step (layer s) (threads s ! i) (reg s) (sigs s) = (t1, m1, ss1)"
    by (metis prod_cases3)
  obtain t2 m2 ss2 where 2: "thread_step (layer s) t1 m1 ss1 = (t2, m2, ss2)"
    by (metis prod_cases3)
  from solo 1 2 have 3: "thread_step (layer s) t2 m2 ss2 = (t, m, ss)" by (simp add: thread_solo_3)
  from i 1 2 3 show ?thesis by simp
qed

lemma lister_run_append: "lister_run (xs @ ys) l = lister_run ys (lister_run xs l)"
  by (induction xs arbitrary: l) auto

lemma quiescent_snoc_Done [simp]: "quiescent (s\<lparr>threads := threads s @ [Done]\<rparr>) = quiescent s"
  by (simp add: quiescent_def)

lemma serial_block_spawn:
  assumes sp: "spawns e" and act: "csys_action s (hw_action e) = Some s1"
    and n: "length (threads s) < length (threads s1)"
    and solo: "thread_solo 3 (layer s1) (threads s1 ! length (threads s)) (reg s1) (sigs s1) = (t, m, ss)"
  shows "csys_schedule s (serial_block s e)
     = Some (s1\<lparr>reg := m, sigs := ss, threads := (threads s1)[length (threads s) := t]\<rparr>)"
proof -
  let ?n = "length (threads s)"
  have "csys_schedule s (serial_block s e) = csys_schedule s1 [Run ?n, Run ?n, Run ?n]"
    using sp by (simp only: serial_block_def Let_def if_True csys_schedule.simps(2) act option.case)
  also have "\<dots> = Some (s1\<lparr>reg := m, sigs := ss, threads := (threads s1)[?n := t]\<rparr>)"
    by (rule schedule_run3_solo [OF n solo])
  finally show ?thesis .
qed

lemma serial_block_sim:
  assumes r: "sim_rel s l" and b: "csys_schedule s (serial_block s e) = Some s'"
  shows "sim_rel s' (lister_run (lister_ops_of (layer s) e) l) \<and> layer s' = layer_after (layer s) e"
proof (cases e)
  case (HPlug u c)
  with b have u: "layer s u = None" by (auto simp: serial_block_def Let_def split: if_splits option.splits)
  let ?h = "(layer s)(u \<mapsto> c)"
  let ?s1 = "s\<lparr>layer := ?h, threads := threads s @ [AddFetch u]\<rparr>"
  have "csys_schedule s (serial_block s e) = Some (?s1
      \<lparr>reg := devices (device_added_callback ?h u l), sigs := emitted (device_added_callback ?h u l),
       threads := (threads ?s1)[length (threads s) := Done]\<rparr>)"
    using r u HPlug by (intro serial_block_spawn [of e s "?s1"]) (simp_all add: sim_rel_def solo_added)
  with b r HPlug show ?thesis by (simp add: sim_rel_def event_callback_def quiescent_def)
next
  case (HUnplug u)
  with b have u: "layer s u \<noteq> None" by (auto simp: serial_block_def Let_def split: if_splits option.splits)
  let ?h = "(layer s)(u := None)"
  let ?s1 = "s\<lparr>layer := ?h, threads := threads s @ [RemoveLocked u]\<rparr>"
  have "csys_schedule s (serial_block s e) = Some (?s1
      \<lparr>reg := devices (device_removed_callback u l), sigs := emitted (device_removed_callback u l),
       threads := (threads ?s1)[length (threads s) := Done]\<rparr>)"
    using r u HUnplug by (intro serial_block_spawn [of e s "?s1"]) (simp_all add: sim_rel_def solo_removed)
  with b r HUnplug show ?thesis by (simp add: sim_rel_def event_callback_def quiescent_def)
next
  case (HStorage u c)
  with b r show ?thesis by (auto simp: serial_block_def Let_def sim_rel_def quiescent_def split: if_splits)
next
  case (HRefresh i)
  let ?s1 = "s\<lparr>threads := threads s @ [UpdateLocked i]\<rparr>"
  have "csys_schedule s (serial_block s e) = Some (?s1
      \<lparr>reg := devices (update_device_free_space (layer s) i l), sigs := emitted (update_device_free_space (layer s) i l),
       threads := (threads ?s1)[length (threads s) := Done]\<rparr>)"
    using r HRefresh by (intro serial_block_spawn [of e s "?s1"]) (simp_all add: sim_rel_def solo_update)
  with b r HRefresh show ?thesis by (simp add: sim_rel_def quiescent_def)
qed

lemma sim_rel_init: "sim_rel (csys_init h) new_lister"
  by (simp add: sim_rel_def csys_init_def new_lister_def quiescent_def)

lemma serial_run_sim:
  "serial_run s es = Some t \<Longrightarrow> sim_rel s l \<Longrightarrow>
     sim_rel t (lister_run (serial_ops (layer s) es) l) \<and> layer t = foldl layer_after (layer s) es"
proof (induction es arbitrary: s l)
  case Nil
  then show ?case by simp
next
  case (Cons e es)
  from Cons.prems(1) obtain s' where b: "csys_schedule s (serial_block s e) = Some s'"
    and r: "serial_run s' es = Some t" by (auto split: option.splits)
  from serial_block_sim [OF Cons.prems(2) b]
  have "sim_rel s' (lister_run (lister_ops_of (layer s) e) l)" and "layer s' = layer_after (layer s) e"
    by auto
  from Cons.IH [OF r this(1)] this(2) show ?case by (simp add: lister_run_append)
qed

lemma serial_run_init:
  "serial_run (csys_init (\<lambda>_. None)) es = Some t \<Longrightarrow>
     sim_rel t (lister_run (serial_ops (\<lambda>_. None) es) new_lister) \<and> layer t = foldl layer_after (\<lambda>_. None) es"
  using serial_run_sim [of "csys_init (\<lambda>_. None)" es t new_lister] sim_rel_init
  by (simp add: csys_init_def)

section \<open>Registered devices stay connected in serial runs\<close>

lemma entries_connected_block:
  assumes inv: "lister_inv l" and con: "entries_connected h (devices l)"
  shows "entries_connected (layer_after h e) (devices (lister_run (lister_ops_of h e) l))"
proof (cases e)
  case (HPlug u c)
  have "(h(u \<mapsto> c)) u \<noteq> None" by simp
  with con HPlug show ?thesis
    by (cases "admissible (h(u \<mapsto> c)) u")
       (auto simp: entries_connected_def event_callback_def device_added_callback_admissible
          read_device_info_uuid all_entries_def)
next
  case (HUnplug u)
  have key: "i = unique_id (uuid info)" if "devices l i = Some info" for i info
    using that inv by (auto simp: lister_inv_def entry_ok_def dest: all_entries_D)
  from con HUnplug show ?thesis
    by (cases "unique_id u \<in> dom (devices l)")
       (auto simp: entries_connected_def event_callback_def device_removed_callback_present
          device_removed_callback_absent all_entries_def dest: key)
next
  case (HStorage u c)
  with con show ?thesis by (auto simp: entries_connected_def all_entries_def)
next
  case (HRefresh i)
  with con show ?thesis
    by (cases "devices l i")
       (auto simp: entries_connected_def update_device_free_space_absent update_device_free_space_present
          all_entries_def)
qed

lemma entries_connected_serial:
  "lister_inv l \<Longrightarrow> entries_connected h (devices l) \<Longrightarrow>
     entries_connected (foldl layer_after h es) (devices (lister_run (serial_ops h es) l))"
proof (induction es arbitrary: h l)
  case Nil
  then show ?case by simp
next
  case (Cons e es)
  have "lister_inv (lister_run (lister_ops_of h e) l)" using Cons.prems(1) by (rule lister_run_inv)
  moreover have "entries_connected (layer_after h e) (devices (lister_run (lister_ops_of h e) l))"
    using Cons.prems by (rule entries_connected_block)
  ultimately show ?case using Cons.IH by (simp add: lister_run_append)
qed

section \<open>A serial run\<close>

text \<open>Device \<open>U\<close> is plugged in and refreshed, device \<open>V\<close> is plugged in, and \<open>U\<close> is
  unplugged; both answer no property query.\<close>

lemma serial_example:
  "\<exists>t. serial_run (csys_init (\<lambda>_. None))
        [HPlug ''U'' (\<lambda>_ _. QInvalid), HRefresh ''ithing/U'', HPlug ''V'' (\<lambda>_ _. QInvalid), HUnplug ''U''] = Some t
      \<and> dom (reg t) = {''ithing/V''}
      \<and> sigs t = [DeviceAdded ''ithing/U'', DeviceChanged ''ithing/U'', DeviceAdded ''ithing/V'', DeviceRemoved ''ithing/U'']"
  by (simp add: serial_block_def schedule_simps Let_def)




section \<open>Properties of serial runs\<close>

text \<open>C4. When callbacks never overlap, the concurrent lister implements the sequential
  one and, through it, the abstract registry. After a serial run from the initial state,
  every callback has returned, and the map and the signals are those of the sequential
  lister run on the callbacks' operations, each against the hardware layer at its time.
  The uuids of the stored records are the set the abstract registry computes.\<close>

theorem serial_run_refines_registry:
  assumes "serial_run (csys_init (\<lambda>_. None)) es = Some t"
  shows "quiescent t
     \<and> reg t = devices (lister_run (serial_ops (\<lambda>_. None) es) new_lister)
     \<and> sigs t = emitted (lister_run (serial_ops (\<lambda>_. None) es) new_lister)
     \<and> uuid ` ran (reg t) = presence_run (map (\<lambda>(hw, op). abs_op hw op) (serial_ops (\<lambda>_. None) es)) {}"
proof -
  from serial_run_init [OF assms] have r: "sim_rel t (lister_run (serial_ops (\<lambda>_. None) es) new_lister)" ..
  have "present (lister_run (serial_ops (\<lambda>_. None) es) new_lister)
      = presence_run (map (\<lambda>(hw, op). abs_op hw op) (serial_ops (\<lambda>_. None) es)) {}"
    using lister_run_present [OF lister_inv_new] by simp
  with r show ?thesis by (simp add: sim_rel_def present_def)
qed

theorem serial_run_refines_registry_witness:
  "\<exists>t. serial_run (csys_init (\<lambda>_. None))
        [HPlug ''U'' (\<lambda>_ _. QInvalid), HRefresh ''ithing/U'', HPlug ''V'' (\<lambda>_ _. QInvalid), HUnplug ''U''] = Some t
      \<and> quiescent t \<and> uuid ` ran (reg t) = {''V''}"
proof -
  from serial_example obtain t where
    run: "serial_run (csys_init (\<lambda>_. None))
        [HPlug ''U'' (\<lambda>_ _. QInvalid), HRefresh ''ithing/U'', HPlug ''V'' (\<lambda>_ _. QInvalid), HUnplug ''U''] = Some t"
    by blast
  note c = serial_run_refines_registry [OF run]
  have q: "quiescent t" using c by (rule conjunct1)
  have p: "uuid ` ran (reg t) = presence_run (map (\<lambda>(hw, op). abs_op hw op) (serial_ops (\<lambda>_. None)
        [HPlug ''U'' (\<lambda>_ _. QInvalid), HRefresh ''ithing/U'', HPlug ''V'' (\<lambda>_ _. QInvalid), HUnplug ''U''])) {}"
    using c by (elim conjE)
  also have "\<dots> = {''V''}"
    by (simp add: admissible_def read_device_info_Some unsupported_model_def qstring_starts_with_def
        default_device_info_def insert_Diff_if)
  finally show ?thesis using run q by blast
qed

text \<open>C16. Without overlapping callbacks the signals never mislead: after a serial run,
  a listener that replays \<open>DeviceAdded\<close> and \<open>DeviceRemoved\<close> holds exactly the ids
  of the map. The divergence shown by \<open>signal_order_diverges_from_registry\<close> needs two callbacks
  in flight at once.\<close>

theorem serial_run_listener_view:
  assumes "serial_run (csys_init (\<lambda>_. None)) es = Some t"
  shows "listener_view {} (sigs t) = dom (reg t)"
proof -
  from serial_run_init [OF assms] have r: "sim_rel t (lister_run (serial_ops (\<lambda>_. None) es) new_lister)" ..
  have "listener_view {} (emitted new_lister) = dom (devices new_lister)" by (simp add: new_lister_def)
  then have "listener_view {} (emitted (lister_run (serial_ops (\<lambda>_. None) es) new_lister))
      = dom (devices (lister_run (serial_ops (\<lambda>_. None) es) new_lister))" by (rule lister_run_view)
  with r show ?thesis by (simp add: sim_rel_def)
qed

theorem serial_run_listener_view_witness:
  "\<exists>t. serial_run (csys_init (\<lambda>_. None))
        [HPlug ''U'' (\<lambda>_ _. QInvalid), HRefresh ''ithing/U'', HPlug ''V'' (\<lambda>_ _. QInvalid), HUnplug ''U''] = Some t
      \<and> listener_view {} (sigs t) = {''ithing/V''}"
proof -
  from serial_example obtain t where
    run: "serial_run (csys_init (\<lambda>_. None))
        [HPlug ''U'' (\<lambda>_ _. QInvalid), HRefresh ''ithing/U'', HPlug ''V'' (\<lambda>_ _. QInvalid), HUnplug ''U''] = Some t"
    and d: "dom (reg t) = {''ithing/V''}" by blast
  from serial_run_listener_view [OF run] d have "listener_view {} (sigs t) = {''ithing/V''}" by simp
  with run show ?thesis by blast
qed

text \<open>C13. Without overlapping callbacks no entry outlives its device: after a serial
  run, the uuid of every registered record still has a connection in the hardware
  layer. The stale entry of \<open>removal_race_leaves_stale_entry\<close> needs a removal that runs
  while an arrival is fetching.\<close>

theorem serial_run_entries_connected:
  assumes "serial_run (csys_init (\<lambda>_. None)) es = Some t"
  shows "entries_connected (layer t) (reg t)"
proof -
  from serial_run_init [OF assms]
  have r: "sim_rel t (lister_run (serial_ops (\<lambda>_. None) es) new_lister)"
    and l: "layer t = foldl layer_after (\<lambda>_. None) es" by auto
  have "entries_connected (\<lambda>_. None) (devices new_lister)"
    by (simp add: entries_connected_def new_lister_def)
  from entries_connected_serial [OF lister_inv_new this, of es] r l show ?thesis
    by (simp add: sim_rel_def)
qed

theorem serial_run_entries_connected_witness:
  "\<exists>t. serial_run (csys_init (\<lambda>_. None))
        [HPlug ''U'' (\<lambda>_ _. QInvalid), HRefresh ''ithing/U'', HPlug ''V'' (\<lambda>_ _. QInvalid), HUnplug ''U''] = Some t
      \<and> entries_connected (layer t) (reg t) \<and> dom (reg t) = {''ithing/V''}"
proof -
  from serial_example obtain t where
    run: "serial_run (csys_init (\<lambda>_. None))
        [HPlug ''U'' (\<lambda>_ _. QInvalid), HRefresh ''ithing/U'', HPlug ''V'' (\<lambda>_ _. QInvalid), HUnplug ''U''] = Some t"
    and d: "dom (reg t) = {''ithing/V''}" by blast
  from serial_run_entries_connected [OF run] d run show ?thesis by blast
qed

end
