(* ===== verification/Races.thy ===== *)
theory Races
  imports Concurrency
begin

text \<open>
  A race of the concurrent lister of theory \<open>Concurrency\<close> between two arrival callbacks
  for the same device. The mutex serialises their inserts, and the last thread to take
  it wins, whatever the age of its fetch. The race is shown by an explicit schedule from
  the initial state.
\<close>

lemmas race_simps = csys_init_def thread_step_def read_device_info_Some unique_id_def quiescent_def

section \<open>The insert race\<close>

text \<open>C14. Two arrival callbacks for one device race, and the last one to take the lock
  wins, whatever the age of its fetch. The device is plugged in with connection \<open>c1\<close>
  and its first arrival callback fetches. The device is then unplugged (that removal
  finds nothing to remove) and plugged in again with connection \<open>c2\<close>. The second
  callback fetches, inserts and emits. The first callback inserts last. In the quiescent
  state reached, the device is connected through \<open>c2\<close> but the registry holds the
  record fetched through \<open>c1\<close>, and two \<open>DeviceAdded\<close> signals were emitted.\<close>

theorem older_fetch_wins_insert_race:
  assumes "\<not> unsupported_model (qvariant_to_string (c1 ''ProductType'' []))"
    and "\<not> unsupported_model (qvariant_to_string (c2 ''ProductType'' []))"
  shows "\<exists>s. creach s \<and> quiescent s \<and> layer s u = Some c2
     \<and> reg s (unique_id u) = Some (read_device_info [u \<mapsto> c1] u)
     \<and> sigs s = [DeviceAdded (unique_id u), DeviceAdded (unique_id u)]"
proof -
  let ?s = "\<lparr>reg = [unique_id u \<mapsto> read_device_info [u \<mapsto> c1] u],
         sigs = [DeviceAdded (unique_id u), DeviceAdded (unique_id u)],
         layer = [u \<mapsto> c2], threads = [Done, Done, Done]\<rparr>"
  have "csys_schedule (csys_init (\<lambda>_. None))
     [Plug u c1, Run 0, Unplug u, Run 1, Plug u c2, Run 2, Run 2, Run 2, Run 0, Run 0] = Some ?s"
    using assms by (simp add: race_simps)
  with creach.init have "creach ?s" by (rule csys_schedule_creach)
  then show ?thesis by (intro exI [of _ ?s]) (simp add: quiescent_def)
qed

theorem older_fetch_wins_insert_race_witness:
  "\<exists>s. creach s \<and> quiescent s
     \<and> layer s ''U'' = Some (\<lambda>p _. if p = ''DeviceName'' then QVString ''New'' else QInvalid)
     \<and> reg s ''ithing/U'' = Some (read_device_info [''U'' \<mapsto> (\<lambda>p _. if p = ''DeviceName'' then QVString ''Old'' else QInvalid)] ''U'')
     \<and> sigs s = [DeviceAdded ''ithing/U'', DeviceAdded ''ithing/U'']"
  using older_fetch_wins_insert_race [of "\<lambda>p _. if p = ''DeviceName'' then QVString ''Old'' else QInvalid"
      "\<lambda>p _. if p = ''DeviceName'' then QVString ''New'' else QInvalid" "''U''"]
  by (simp add: unsupported_model_def qstring_starts_with_def unique_id_def)

end
