(* ===== verification/Notification.thy ===== *)
theory Notification
  imports Registry
begin

text \<open>
  The notification contract of the design. A successful upsert that creates an entry
  announces "added", one that replaces an entry announces "changed", and a successful
  remove announces "removed"; a free-space refresh of a live entry is a replacing
  update. The contract is an abstract machine over the set of registered ids. Each
  operation of the lister is a call of the registry interface (\<open>registry_call\<close>), and
  the machine emits one notice per successful call. A notice records which case of the
  contract it is, so the signal the design asks for and the signal the code emits can
  both be read off it. The theorem relates the lister's signal stream to the contract's:
  the code emits the contract's signals except on an arrival that replaces a registered
  entry.
\<close>

section \<open>The registry calls and the contract\<close>

datatype reg_call = Upsert qstring | Remove qstring | Refresh qstring | NoCall

fun registry_call :: "hardware_layer \<Rightarrow> lister_op \<Rightarrow> reg_call" where
  "registry_call hw (Event ev) =
     (case event ev of
        IDEVICE_DEVICE_ADD \<Rightarrow> if admissible hw (udid ev) then Upsert (unique_id (udid ev)) else NoCall
      | IDEVICE_DEVICE_REMOVE \<Rightarrow> Remove (unique_id (udid ev))
      | IDEVICE_DEVICE_PAIRED \<Rightarrow> NoCall)"
| "registry_call hw (UpdateFreeSpace i) = Refresh i"
| "registry_call hw Init = NoCall"

datatype notice = NAdded qstring | NReplaced qstring | NRefreshed qstring | NRemoved qstring

fun contract_step :: "reg_call \<Rightarrow> qstring set \<Rightarrow> qstring set \<times> notice list" where
  "contract_step (Upsert i) D = (insert i D, [if i \<in> D then NReplaced i else NAdded i])"
| "contract_step (Remove i) D = (if i \<in> D then (D - {i}, [NRemoved i]) else (D, []))"
| "contract_step (Refresh i) D = (D, if i \<in> D then [NRefreshed i] else [])"
| "contract_step NoCall D = (D, [])"

fun contract_notices :: "reg_call list \<Rightarrow> qstring set \<Rightarrow> notice list" where
  "contract_notices [] D = []"
| "contract_notices (c # cs) D = (case contract_step c D of (D', ns) \<Rightarrow> ns @ contract_notices cs D')"

text \<open>The signal the design asks for on each notice, and the one \<open>iLister\<close> emits.\<close>

fun spec_signal :: "notice \<Rightarrow> lister_signal" where
  "spec_signal (NAdded i) = DeviceAdded i"
| "spec_signal (NReplaced i) = DeviceChanged i"
| "spec_signal (NRefreshed i) = DeviceChanged i"
| "spec_signal (NRemoved i) = DeviceRemoved i"

fun code_signal :: "notice \<Rightarrow> lister_signal" where
  "code_signal (NAdded i) = DeviceAdded i"
| "code_signal (NReplaced i) = DeviceAdded i"
| "code_signal (NRefreshed i) = DeviceChanged i"
| "code_signal (NRemoved i) = DeviceRemoved i"

fun is_replaced :: "notice \<Rightarrow> bool" where
  "is_replaced (NReplaced i) = True"
| "is_replaced n = False"

section \<open>The lister follows the contract machine\<close>

lemma lister_step_contract:
  "emitted (lister_step hw op l) = emitted l @ map code_signal (snd (contract_step (registry_call hw op) (dom (devices l))))
   \<and> dom (devices (lister_step hw op l)) = fst (contract_step (registry_call hw op) (dom (devices l)))"
proof (cases op)
  case (Event ev)
  then show ?thesis
    by (cases "event ev"; cases "admissible hw (udid ev)"; cases "unique_id (udid ev) \<in> dom (devices l)")
       (auto simp: event_callback_def device_added_callback_admissible device_removed_callback_present
          device_removed_callback_absent)
next
  case (UpdateFreeSpace i)
  then show ?thesis
    by (cases "devices l i")
       (auto simp: update_device_free_space_absent update_device_free_space_present)
next
  case Init
  then show ?thesis by (simp add: lister_init_def)
qed

lemma lister_run_contract:
  "emitted (lister_run ops l)
     = emitted l @ map code_signal (contract_notices (map (\<lambda>(hw, op). registry_call hw op) ops) (dom (devices l)))"
proof (induction ops arbitrary: l)
  case Nil
  then show ?case by simp
next
  case (Cons x ops)
  obtain hw op where x: "x = (hw, op)" by (cases x)
  from lister_step_contract [of hw op l] Cons.IH [of "lister_step hw op l"] x show ?case
    by (simp split: prod.splits)
qed

lemma map_spec_code_signal:
  "(map code_signal ns = map spec_signal ns) \<longleftrightarrow> \<not> list_ex is_replaced ns"
proof (induction ns)
  case Nil
  then show ?case by simp
next
  case (Cons n ns)
  then show ?case by (cases n) simp_all
qed


section \<open>The signals against the contract\<close>

text \<open>C19. Run from construction, \<open>iLister\<close> emits one signal per successful registry
  call, in call order, as the contract machine announces them: "added" for a new
  entry, "changed" for a refresh of a live one, "removed" for a removal. The one
  exception is an arrival that replaces a registered entry, which the design announces as
  "changed" and the code as \<open>DeviceAdded\<close>. So the signal stream is the one the design
  asks for exactly when no arrival replaces an entry.\<close>

theorem lister_signals_meet_contract:
  "emitted (lister_run ops new_lister)
     = map code_signal (contract_notices (map (\<lambda>(hw, op). registry_call hw op) ops) {})
   \<and> (emitted (lister_run ops new_lister)
        = map spec_signal (contract_notices (map (\<lambda>(hw, op). registry_call hw op) ops) {})
      \<longleftrightarrow> \<not> list_ex is_replaced (contract_notices (map (\<lambda>(hw, op). registry_call hw op) ops) {}))"
  using lister_run_contract [of ops new_lister] map_spec_code_signal
  by (simp add: new_lister_def)

end
