(* ===== verification/Commute.thy ===== *)
theory Commute
  imports Registry "HOL-Library.Multiset"
begin

text \<open>
  Ordering of operations on different devices. The design gives no ordering guarantee
  between the events of distinct devices. This theory shows the registry does not need
  one: every operation of the lister reads and writes only the entry of its own target
  id, so two operations with different targets commute. Both orders give the same map
  and the same subscription; the emitted signals are the same multiset (one of each
  operation's signals, in the opposite order).
\<close>

section \<open>The target of an operation and its local effect\<close>

fun op_target :: "lister_op \<Rightarrow> qstring option" where
  "op_target (Event ev) =
     (case event ev of
        IDEVICE_DEVICE_ADD \<Rightarrow> Some (unique_id (udid ev))
      | IDEVICE_DEVICE_REMOVE \<Rightarrow> Some (unique_id (udid ev))
      | IDEVICE_DEVICE_PAIRED \<Rightarrow> None)"
| "op_target (UpdateFreeSpace i) = Some i"
| "op_target Init = None"

definition independent :: "lister_op \<Rightarrow> lister_op \<Rightarrow> bool" where
  "independent a b = (case (op_target a, op_target b) of (Some i, Some j) \<Rightarrow> i \<noteq> j | _ \<Rightarrow> True)"

text \<open>What an operation does to the entry of its target, and the signals it emits.\<close>

fun step_local :: "hardware_layer \<Rightarrow> lister_op \<Rightarrow> device_info option \<Rightarrow> device_info option \<times> lister_signal list" where
  "step_local hw (Event ev) x =
     (case event ev of
        IDEVICE_DEVICE_ADD \<Rightarrow>
          if admissible hw (udid ev)
          then (Some (read_device_info hw (udid ev)), [DeviceAdded (unique_id (udid ev))]) else (x, [])
      | IDEVICE_DEVICE_REMOVE \<Rightarrow>
          (case x of None \<Rightarrow> (None, []) | Some _ \<Rightarrow> (None, [DeviceRemoved (unique_id (udid ev))]))
      | IDEVICE_DEVICE_PAIRED \<Rightarrow> (x, []))"
| "step_local hw (UpdateFreeSpace i) x =
     (case x of
        None \<Rightarrow> (None, [])
      | Some info \<Rightarrow> (Some (info\<lparr>free_bytes :=
          qvariant_to_ulonglong (get_property (hw (uuid info)) ''AmountDataAvailable'' disk_usage)\<rparr>),
          [DeviceChanged i]))"
| "step_local hw Init x = (x, [])"

section \<open>Every operation is local to its target\<close>

lemma lister_step_local:
  "lister_step hw op l =
     l\<lparr>devices := (case op_target op of None \<Rightarrow> devices l
                   | Some i \<Rightarrow> (devices l)(i := fst (step_local hw op (devices l i)))),
       emitted := emitted l @ (case op_target op of None \<Rightarrow> [] | Some i \<Rightarrow> snd (step_local hw op (devices l i))),
       subscribed := (subscribed l \<or> op = Init)\<rparr>"
proof (cases op)
  case (Event ev)
  show ?thesis
  proof (cases "event ev")
    case IDEVICE_DEVICE_ADD
    with Event show ?thesis
      by (cases "admissible hw (udid ev)") (simp_all add: event_callback_def device_added_callback_admissible)
  next
    case IDEVICE_DEVICE_REMOVE
    with Event show ?thesis
      by (cases "devices l (unique_id (udid ev))")
         (simp_all add: event_callback_def device_removed_callback_present device_removed_callback_absent
            domIff)
  next
    case IDEVICE_DEVICE_PAIRED
    with Event show ?thesis by (simp add: event_callback_def)
  qed
next
  case (UpdateFreeSpace i)
  then show ?thesis
    by (cases "devices l i") (simp_all add: update_device_free_space_absent update_device_free_space_present fun_upd_idem)
next
  case Init
  then show ?thesis by (simp add: lister_init_def)
qed


section \<open>Operations on different devices commute\<close>

text \<open>C17. The lister's state does not depend on the order of two operations with
  different target ids (an arrival, removal or refresh of one device and one of another
  device, or any operation and \<open>Init\<close> or a paired event). Both orders leave the same map
  and the same subscription. The emitted signals differ only in their order: they are
  the same multiset.\<close>

theorem independent_steps_commute:
  assumes "independent a b"
  shows "devices (lister_step hb b (lister_step ha a l)) = devices (lister_step ha a (lister_step hb b l))
     \<and> mset (emitted (lister_step hb b (lister_step ha a l))) = mset (emitted (lister_step ha a (lister_step hb b l)))
     \<and> subscribed (lister_step hb b (lister_step ha a l)) = subscribed (lister_step ha a (lister_step hb b l))"
  using assms
  by (cases "op_target a"; cases "op_target b")
     (auto simp: lister_step_local independent_def
        fun_upd_twist)

theorem independent_steps_commute_witness:
  "devices (lister_step (\<lambda>_. Some (\<lambda>_ _. QInvalid)) (UpdateFreeSpace ''ithing/V'')
      (lister_step (\<lambda>_. Some (\<lambda>_ _. QInvalid)) (Event \<lparr>event = IDEVICE_DEVICE_ADD, udid = ''U''\<rparr>) new_lister))
   = devices (lister_step (\<lambda>_. Some (\<lambda>_ _. QInvalid)) (Event \<lparr>event = IDEVICE_DEVICE_ADD, udid = ''U''\<rparr>)
      (lister_step (\<lambda>_. Some (\<lambda>_ _. QInvalid)) (UpdateFreeSpace ''ithing/V'') new_lister))"
proof -
  have "independent (Event \<lparr>event = IDEVICE_DEVICE_ADD, udid = ''U''\<rparr>) (UpdateFreeSpace ''ithing/V'')"
    by (simp add: independent_def unique_id_def)
  from independent_steps_commute [OF this, of "\<lambda>_. Some (\<lambda>_ _. QInvalid)" "\<lambda>_. Some (\<lambda>_ _. QInvalid)" new_lister]
  show ?thesis by (rule conjunct1)
qed

end
