(* ===== verification/LineEdit.thy ===== *)
theory LineEdit
  imports Complex_Main QtCore
begin

text \<open>
  The editor widgets of src/src/widgets/lineedit.h. \<open>LineEditInterface\<close> declares
  the operations every editor offers; \<open>ExtendedEditor\<close> adds a hint, a clear button
  and a font size; \<open>LineEdit\<close>, \<open>TextEdit\<close> and \<open>SpinBox\<close> implement the text
  operations on a \<open>QLineEdit\<close>, a \<open>QPlainTextEdit\<close> and a \<open>QSpinBox\<close>. The virtual
  calls are modelled by dispatch on the editor's kind. The Qt widgets' state is part of
  the record: the text of a line or plain-text edit, and the value and range of a spin
  box. \<open>SpinBox::textFromValue\<close> and \<open>ExtendedEditor::set_hint\<close> have their bodies in
  lineedit.cpp, which is not in the repository. The first is a field of the record,
  the function the spin box formats its value with. The second stores the hint, as
  its getter \<open>hint()\<close> requires.
\<close>

section \<open>Editors\<close>

datatype editor_kind = LineEditKind | TextEditKind | SpinBoxKind

text \<open>The \<open>ExtendedEditor\<close> fields, and the state of the Qt widget underneath: the text
  and maximum length of a \<open>QLineEdit\<close>, the document of a \<open>QPlainTextEdit\<close>, the
  value and range of a \<open>QSpinBox\<close>.\<close>

record extended_editor =
  kind :: editor_kind
  plain_text :: qstring
  max_length :: nat
  spin_value :: int
  spin_minimum :: int
  spin_maximum :: int
  text_from_value :: "int \<Rightarrow> qstring"
  enabled :: bool
  focused :: bool
  hint_text :: qstring
  has_clear_button :: bool
  extra_right_padding :: int
  draw_hint :: bool
  font_point_size :: real
  is_rtl :: bool

text \<open>\<open>QSpinBox::setValue\<close> keeps the value within the range.\<close>

definition spin_bound :: "int \<Rightarrow> int \<Rightarrow> int \<Rightarrow> int" where
  "spin_bound lo hi v = max lo (min hi v)"

section \<open>The overrides of the three editors\<close>

text \<open>\<open>LineEdit\<close>: \<open>QLineEdit::text()\<close> and \<open>QLineEdit::setText\<close>, which cuts the text
  at \<open>maxLength()\<close> (32767 unless set).\<close>

definition line_edit_text :: "extended_editor \<Rightarrow> qstring" where
  "line_edit_text e = plain_text e"

definition line_edit_set_text :: "extended_editor \<Rightarrow> qstring \<Rightarrow> extended_editor" where
  "line_edit_set_text e t = e\<lparr>plain_text := take (max_length e) t\<rparr>"

text \<open>\<open>TextEdit\<close>: \<open>setPlainText\<close> stores the document, \<open>toPlainText\<close> reads it back.\<close>

definition text_edit_text :: "extended_editor \<Rightarrow> qstring" where
  "text_edit_text e = qplain_text (plain_text e)"

definition text_edit_set_text :: "extended_editor \<Rightarrow> qstring \<Rightarrow> extended_editor" where
  "text_edit_set_text e t = e\<lparr>plain_text := t\<rparr>"

text \<open>\<open>SpinBox\<close>: \<open>QSpinBox::text()\<close> is the value formatted by \<open>textFromValue\<close> (no
  prefix or suffix is set); \<open>set_text\<close> is \<open>setValue(text.toInt())\<close>.\<close>

definition spin_box_text :: "extended_editor \<Rightarrow> qstring" where
  "spin_box_text e = text_from_value e (spin_value e)"

definition spin_box_set_text :: "extended_editor \<Rightarrow> qstring \<Rightarrow> extended_editor" where
  "spin_box_set_text e t = e\<lparr>spin_value := spin_bound (spin_minimum e) (spin_maximum e) (qstring_to_int t)\<rparr>"

section \<open>The interface, with virtual dispatch on the kind\<close>

definition editor_text :: "extended_editor \<Rightarrow> qstring" where
  "editor_text e =
     (case kind e of
        LineEditKind \<Rightarrow> line_edit_text e
      | TextEditKind \<Rightarrow> text_edit_text e
      | SpinBoxKind \<Rightarrow> spin_box_text e)"

definition editor_set_text :: "extended_editor \<Rightarrow> qstring \<Rightarrow> extended_editor" where
  "editor_set_text e t =
     (case kind e of
        LineEditKind \<Rightarrow> line_edit_set_text e t
      | TextEditKind \<Rightarrow> text_edit_set_text e t
      | SpinBoxKind \<Rightarrow> spin_box_set_text e t)"

text \<open>\<open>set_focus\<close> and \<open>set_enabled\<close> have the same body in the three editors: the Qt
  widget's \<open>setFocus()\<close> and \<open>setEnabled(enabled)\<close>.\<close>

definition editor_set_focus :: "extended_editor \<Rightarrow> extended_editor" where
  "editor_set_focus e = e\<lparr>focused := True\<rparr>"

definition editor_set_enabled :: "extended_editor \<Rightarrow> bool \<Rightarrow> extended_editor" where
  "editor_set_enabled e b = e\<lparr>enabled := b\<rparr>"

text \<open>\<open>LineEditInterface::clear()\<close> calls the virtual \<open>set_text(QString())\<close>.\<close>

definition editor_clear :: "extended_editor \<Rightarrow> extended_editor" where
  "editor_clear e = editor_set_text e []"

text \<open>\<open>ExtendedEditor::is_empty()\<close>: the text is empty. \<open>SpinBox::is_empty()\<close> also
  counts \<open>"0"\<close> as empty.\<close>

definition extended_is_empty :: "extended_editor \<Rightarrow> bool" where
  "extended_is_empty e \<longleftrightarrow> editor_text e = []"

definition spin_box_is_empty :: "extended_editor \<Rightarrow> bool" where
  "spin_box_is_empty e \<longleftrightarrow> editor_text e = [] \<or> editor_text e = ''0''"

definition editor_is_empty :: "extended_editor \<Rightarrow> bool" where
  "editor_is_empty e = (case kind e of SpinBoxKind \<Rightarrow> spin_box_is_empty e | _ \<Rightarrow> extended_is_empty e)"

definition editor_hint :: "extended_editor \<Rightarrow> qstring" where
  "editor_hint e = hint_text e"

definition editor_set_hint :: "extended_editor \<Rightarrow> qstring \<Rightarrow> extended_editor" where
  "editor_set_hint e h = e\<lparr>hint_text := h\<rparr>"

definition editor_clear_hint :: "extended_editor \<Rightarrow> extended_editor" where
  "editor_clear_hint e = editor_set_hint e []"

definition editor_set_font_point_size :: "extended_editor \<Rightarrow> real \<Rightarrow> extended_editor" where
  "editor_set_font_point_size e sz = e\<lparr>font_point_size := sz\<rparr>"

definition line_edit_set_rtl :: "extended_editor \<Rightarrow> bool \<Rightarrow> extended_editor" where
  "line_edit_set_rtl e rtl = e\<lparr>is_rtl := rtl\<rparr>"

text \<open>A spin box with the default range 0..99 and decimal formatting.\<close>

definition default_spin_box :: extended_editor where
  "default_spin_box =
     \<lparr>kind = SpinBoxKind, plain_text = [], max_length = 32767, spin_value = 0, spin_minimum = 0,
      spin_maximum = 99, text_from_value = qstring_number_int, enabled = True, focused = False,
      hint_text = [], has_clear_button = True, extra_right_padding = 0, draw_hint = True,
      font_point_size = 0, is_rtl = False\<rparr>"

section \<open>Facts about the editors\<close>

lemma qstring_number_int_zero [simp]: "qstring_number_int 0 = ''0''"
  by (simp add: qstring_number_int_def dec_string.simps digit_char_def)

lemma spin_bound_id: "lo \<le> v \<Longrightarrow> v \<le> hi \<Longrightarrow> spin_bound lo hi v = v"
  by (simp add: spin_bound_def)

lemmas editor_text_simps = editor_is_empty_def extended_is_empty_def spin_box_is_empty_def editor_clear_def
  editor_text_def editor_set_text_def line_edit_text_def line_edit_set_text_def text_edit_text_def
  text_edit_set_text_def spin_box_text_def spin_box_set_text_def

section \<open>Properties of the editors\<close>

text \<open>C30. \<open>clear()\<close> leaves every editor empty in the sense of its own \<open>is_empty()\<close>:
  a line or text edit has empty text, and a spin box with the decimal formatting and
  0 within its range shows \<open>"0"\<close>, which its override counts as empty.\<close>

theorem editor_clear_is_empty:
  assumes "kind e = SpinBoxKind \<longrightarrow> text_from_value e = qstring_number_int \<and> spin_minimum e \<le> 0 \<and> 0 \<le> spin_maximum e"
  shows "editor_is_empty (editor_clear e)"
proof (cases "kind e")
  case SpinBoxKind
  with assms have "spin_bound (spin_minimum e) (spin_maximum e) 0 = 0" and "text_from_value e = qstring_number_int"
    by (simp_all add: spin_bound_id)
  with SpinBoxKind show ?thesis
    by (simp add: editor_text_simps)
qed (simp_all add: editor_text_simps)

theorem editor_clear_is_empty_witness:
  "editor_is_empty (editor_clear default_spin_box)
   \<and> editor_is_empty (editor_clear (default_spin_box\<lparr>kind := LineEditKind, plain_text := ''abc''\<rparr>))"
  using editor_clear_is_empty [of default_spin_box]
    editor_clear_is_empty [of "default_spin_box\<lparr>kind := LineEditKind, plain_text := ''abc''\<rparr>"]
  by (simp add: default_spin_box_def)

end
