(* ===== verification/Spec2Isabelle.thy ===== *)
theory Spec2Isabelle
  imports Serial Races Notification Commute LineEdit
begin

text \<open>
  \<^bold>\<open>A verification library for Strawberry's iOS device lister.\<close>

  \<^bold>\<open>The program.\<close> The core is \<open>iLister\<close> (src/src/device/ilister.cpp). It subscribes
  to libimobiledevice's hot-plug events (\<open>Init\<close>, \<open>EventCallback\<close>). On an arrival it
  fetches the device's metadata through an \<open>iMobileDeviceConnection\<close>
  (\<open>ReadDeviceInfo\<close>). It drops invalid fetches and denylisted models, files the
  record under the id \<open>"ithing/" + uuid\<close> in the mutex-protected map \<open>devices_\<close>, and
  emits \<open>DeviceAdded\<close> (\<open>DeviceAddedCallback\<close>). On a departure it removes the
  entry and emits \<open>DeviceRemoved\<close> (\<open>DeviceRemovedCallback\<close>). Consumers read the map
  through \<open>LockAndGetDeviceInfo\<close> and the accessors (\<open>DeviceModel\<close>,
  \<open>DeviceCapacity\<close>, \<open>DeviceFreeSpace\<close>, \<open>DeviceHardwareInfo\<close>,
  \<open>MakeFriendlyName\<close>, \<open>MakeDeviceUrls\<close>, \<open>DeviceUniqueIDs\<close>). They refresh the
  free-space counter with \<open>UpdateDeviceFreeSpace\<close>, which emits \<open>DeviceChanged\<close>.

  \<^bold>\<open>The theories.\<close>
  \<^item> \<open>Prelude\<close>: type names (\<open>qstring\<close>, \<open>quint64 = 64 word\<close>), the fact
    collections \<open>qt_simps\<close>, \<open>lister_simps\<close>, \<open>inv_intros\<close>, and the predicate
    \<open>all_entries\<close> with its update and removal rules.
  \<^item> \<open>QtCore\<close>: \<open>QString::startsWith\<close>, \<open>QString::right\<close>, decimal printing and
    parsing, and the \<open>QVariant\<close> conversions. Qt is not in the repository, so these
    follow Qt's documentation. A string conversion first trims leading and trailing
    whitespace (\<open>qstring_trimmed\<close>) and accepts a leading sign; a failed or
    overflowing conversion gives the default value. \<open>qplain_text\<close> is the
    normalisation of \<open>QTextEdit::toPlainText\<close> (CR LF and CR become LF, a no-break
    space becomes a space).
  \<^item> \<open>DeviceInfo\<close>: the \<open>DeviceInfo\<close> record and the connection interface. The
    hardware layer maps each uuid to its connection, \<open>None\<close> when it cannot be opened.
    \<open>read_device_info\<close> models \<open>ReadDeviceInfo\<close>, with its battery of property
    queries in the order of the code.
  \<^item> \<open>ILister\<close>: the state \<open>lister\<close> (the map \<open>devices_\<close>, the signals emitted so far,
    the subscription) and one definition per method of ilister.cpp. The datatype
    \<open>lister_op\<close> names each operation, with a step function and runs over operation
    lists. Each hardware-layer snapshot is given per operation.
    Its lemmas: the behaviour of every handler on every branch, and the registry
    invariant \<open>lister_inv\<close> (valid entries, keyed by the id of their own uuid, no
    denylisted model, finite) kept by every operation.

  \<^item> \<open>Concurrency\<close>: the lister as libimobiledevice and its consumers drive it. Each
    callback invocation is a \<open>thread\<close> whose next atomic section \<open>thread_step\<close>
    performs:
    \<^item> \<open>added_callback_step\<close>: the fetch outside the lock, the checks and the locked
      insert, then \<open>emit DeviceAdded\<close>;
    \<^item> \<open>removed_callback_step\<close>: the locked test-and-remove, then the emit;
    \<^item> \<open>update_free_space_step\<close>: one locked section that includes the device query,
      then the emit.
    The inductive relation \<open>cstep\<close> interleaves thread sections with the hardware layer:
    plugging a device (connection appears, an add callback starts), unplugging it
    (connection withdrawn, a remove callback starts), storage changes, and consumer
    refresh requests. \<open>creach\<close> is the set of reachable states. \<open>csys_action\<close> and
    \<open>csys_schedule\<close> are the same steps as an executable function on explicit schedules,
    proved to agree with \<open>cstep\<close> on each step. The lemmas cover three things. The
    registry invariant holds in every reachable state, by rule induction. The race left
    open in section 9 of the spec is real: a stale entry survives an unplug. Out-of-lock emission can leave a signal-tracking
    listener out of step with the map.

  \<^item> \<open>Registry\<close>: the registry contract of the design, stated abstractly and refined.
    The abstract state is the set of devices present by raw uuid, with
    \<open>presence_step\<close> for arrivals, departures and no-ops. \<open>abs_op\<close> maps each lister
    operation to its abstract step. An arrival counts only when \<open>admissible\<close> holds, the
    guard of \<open>DeviceAddedCallback\<close>. \<open>present\<close> reads the uuids of the stored
    records. The refinement lemma says that every operation run one at a time moves
    \<open>present\<close> as the abstract step does; it rests on the registry invariant, under
    which the stored uuids are exactly the uuids whose ids are keys. The read side:
    every signal carries a derived id; \<open>DeviceHardwareInfo\<close> after an
    arrival reports the connection's answers; \<open>MakeDeviceUrls\<close> builds the endpoint
    from the device's own uuid, and gives none for an empty uuid.
  \<^item> \<open>Races\<close>: the insert race of the concurrent model. Two arrival callbacks of one
    device fetch outside the lock; the last to take the lock wins, even when its fetch
    is the older one, so the map can keep a record older than the device's state.
  \<^item> \<open>Serial\<close>: the concurrent lister when callbacks never overlap. A \<open>hw_event\<close>
    (plug, unplug, storage change, refresh request) is followed by the three sections of
    the callback it starts (\<open>serial_block\<close>, \<open>serial_run\<close>). The refinement mapping
    \<open>sim_rel\<close> relates a quiescent concurrent state to the sequential lister holding the
    same map and signals. Each serial block is one \<open>lister_step\<close> against the hardware
    layer of its time (\<open>serial_ops\<close>). Composed with the presence abstraction of
    \<open>Registry\<close>, serial runs implement the abstract registry. In serial runs the
    listener view matches the map, and every stored record's device is still connected.
    So the stale-entry, insert-race and signal-order behaviours of \<open>Concurrency\<close> and
    \<open>Races\<close> need overlapping callbacks.
  \<^item> \<open>Notification\<close>: the notification contract of the design as an abstract
    machine over the registered ids. \<open>registry_call\<close> reads each lister operation as a
    call of the registry interface (upsert, remove, refresh, none). \<open>contract_step\<close>
    emits one notice per successful call, distinguishing an upsert that creates an entry
    from one that replaces it. The lister's signal stream is the notices read through
    \<open>code_signal\<close>. It equals the design's reading \<open>spec_signal\<close> exactly when no
    arrival replaces a registered entry.
  \<^item> \<open>Commute\<close>: ordering of operations on different devices. \<open>op_target\<close> is the
    id an operation touches and \<open>step_local\<close> its effect on that entry. Every lister
    step is local to its target (\<open>lister_step_local\<close>), so two operations with
    different targets (\<open>independent\<close>) commute. Both orders give the same map and
    subscription, and the same multiset of signals (HOL-Library \<open>Multiset\<close>). The
    missing ordering guarantee between devices' events therefore does not matter for the
    registry.
  \<^item> \<open>LineEdit\<close>: the editor widgets of src/src/widgets/lineedit.h (independent of
    the lister). One record holds the \<open>ExtendedEditor\<close> fields and the Qt widget state.
    The virtual \<open>text\<close>/\<open>set_text\<close>/\<open>is_empty\<close> calls dispatch on the editor kind
    (\<open>LineEdit\<close>, \<open>TextEdit\<close>, \<open>SpinBox\<close>) as the overrides of lineedit.h do:
    \<open>QLineEdit::setText\<close> cuts the text at \<open>maxLength\<close>, \<open>QTextEdit::toPlainText\<close>
    normalises line ends and no-break spaces, and a spin box stores a clamped number and
    is empty when its value is 0. Its lemma: \<open>clear()\<close> leaves every editor empty by
    its own \<open>is_empty()\<close>.

  \<^bold>\<open>Bounds and fuel.\<close> No definition uses fuel: every function is structurally
  recursive, and the concurrent model is an inductive relation with an executable
  schedule of explicit length. A serial block is three sections, enough for every
  program counter (the add callback has three sections, the others two).
  Free and total byte counts are \<open>64 word\<close> values, read through the modelled
  \<open>QVariant::toULongLong\<close>, which yields 0 on a failed or overflowing conversion, so a
  stored counter is never a value taken modulo \<open>2^64\<close>.

  \<^bold>\<open>Not modelled.\<close> The data race of \<open>DeviceUniqueIDs\<close> has no atomic section to
  model. It reads \<open>devices_\<close> without the lock, so here it is a read of the current
  map. The Qt event loop that delivers signals to listeners is not modelled: signals are
  appended to a list in emission order. Three headers of the repository declare classes
  whose member functions have no body in it:
  \<^item> src/src/covermanager/qobuzcoverprovider.h: \<open>QobuzCoverProvider\<close>, with
    \<open>StartSearch\<close>, \<open>CancelSearch\<close>, \<open>HandleSearchReply\<close> and the API constants;
  \<^item> src/src/core/network.h: \<open>NetworkAccessManager::createRequest\<close> and the
    \<open>ThreadSafeNetworkDiskCache\<close> operations behind a static mutex;
  \<^item> src/3rdparty/taglib/riff/wav/wavproperties.h: the getters of
    \<open>WAV::AudioProperties\<close>, whose state is a private implementation class.
  Their behaviour is in .cpp files that are not in the repository, and the spec puts the
  network stack, the cache and audio property parsing out of scope. A model would invent
  the bodies, so these classes are left out. Every line of ilister.cpp and lineedit.h
  beyond the license header and the includes is mapped.

  \<^bold>\<open>Further work.\<close> A bound on the stale entries of overlapping runs (at most one
  per racing arrival), the notification contract for the concurrent model, where signals
  leave the lock in an order of their own, and the commutation of whole callback threads
  for different devices under interleaving.
\<close>

end
